theory Spec2Isabelle
  imports Main "HOL-Library.Word"
begin

section \<open>The employee service: data model\<close>

text \<open>
  The service is four HTTP handlers over one MongoDB collection
  (\<^verbatim>\<open>controllers/controllers.go\<close>) and one struct (\<^verbatim>\<open>models/models.go\<close>).
  The handlers are embedded as functions from the collection's contents and a request to a
  response and the new contents. What the libraries do (the validator, the BSON codec, the
  driver's collection and cursor, \<^verbatim>\<open>encoding/json\<close>) is written out below as
  far as the handlers depend on it; everything that is decided outside the program (a
  failing connection, the identifier the driver generates) is an input, the record
  \<open>driver\<close>. The handlers run on the collection that \<^verbatim>\<open>ConnectToMongoDB\<close> has set
  (\<^verbatim>\<open>main\<close> exits when it fails); the connection itself and the output on standard
  output (\<^verbatim>\<open>fmt.Println\<close>) are not modelled.
\<close>

subsection \<open>Identifiers\<close>

text \<open>\<^verbatim>\<open>bson.ObjectID\<close> is \<^verbatim>\<open>[12]byte\<close>; \<^verbatim>\<open>bson.NilObjectID\<close> is its zero value.\<close>

type_synonym ObjectID = "8 word list"

definition NilObjectID :: ObjectID where
  "NilObjectID = [0, 0, 0, 0, 0, 0, 0, 0, 0, 0, 0, 0]"

subsection \<open>The struct of \<^verbatim>\<open>models.go\<close>\<close>

text \<open>
  \<^verbatim>\<open>
  type Employee struct {
      ID         bson.ObjectID `json:"id,omitempty" bson:"_id,omitempty"`
      Name       string `json:"name,omitempty" bson:"name,omitempty" validate:"required"`
      Email      string `json:"email,omitempty" bson:"email,omitempty" validate:"required,email"`
      Phone      string `json:"phone,omitempty" bson:"phone,omitempty" validate:"required"`
      Department string `json:"department,omitempty" bson:"department,omitempty" validate:"required"`
  }
  \<close>
\<close>

record Employee =
  ID :: ObjectID
  Name :: string
  Email :: string
  Phone :: string
  Department :: string

subsection \<open>Errors\<close>

text \<open>
  One validation failure of the validator library: the struct field's name, the tag that
  failed and the tag's parameter.
\<close>

record FieldError =
  Field :: string
  Tag :: string
  Param :: string

text \<open>
  Go's \<^verbatim>\<open>error\<close> values, as the handlers meet them. The message text of a library's
  error is the library's own and is not modelled; an error made by \<^verbatim>\<open>fmt.Errorf\<close>
  keeps its format's text and, for \<^verbatim>\<open>%w\<close>, the error it wraps.
\<close>

datatype error =
    SyntaxError string            \<comment> \<open>\<^verbatim>\<open>encoding/json\<close>: the body did not decode\<close>
  | InvalidValidationError        \<comment> \<open>validator: the argument is not a struct\<close>
  | ValidationErrors "FieldError list"
  | ErrInvalidHex                 \<comment> \<open>\<^verbatim>\<open>bson.ErrInvalidHex\<close>\<close>
  | InvalidByteError char         \<comment> \<open>\<^verbatim>\<open>hex.InvalidByteError\<close>\<close>
  | ErrLength                     \<comment> \<open>\<^verbatim>\<open>hex.ErrLength\<close>\<close>
  | CommandError string           \<comment> \<open>the driver could not run the command (network, server)\<close>
  | DuplicateKeyError ObjectID    \<comment> \<open>the server's E11000 on \<^verbatim>\<open>_id\<close>\<close>
  | ImmutableFieldError           \<comment> \<open>the server refuses to change \<^verbatim>\<open>_id\<close>\<close>
  | ValueDecoderError string      \<comment> \<open>the BSON codec cannot decode the value of this key\<close>
  | Errorf string                 \<comment> \<open>\<^verbatim>\<open>fmt.Errorf\<close>, the message formatted\<close>
  | Errorf_w string error         \<comment> \<open>\<^verbatim>\<open>fmt.Errorf("<text>%w", err)\<close>\<close>

subsection \<open>\<^verbatim>\<open>bson.ObjectIDFromHex\<close>\<close>

text \<open>
  \<^verbatim>\<open>
  func ObjectIDFromHex(s string) (ObjectID, error) {
      if len(s) != 24 { return NilObjectID, ErrInvalidHex }
      var oid [12]byte
      _, err := hex.Decode(oid[:], []byte(s))
      if err != nil { return NilObjectID, err }
      return oid, nil
  }
  \<close>
  \<^verbatim>\<open>hex.Decode\<close> reads the bytes in pairs, accepts both cases of the letters and
  reports the first byte that is not a hexadecimal digit.
\<close>

definition fromHexChar :: "char \<Rightarrow> nat option" where
  "fromHexChar c =
     (let n = of_char c :: nat in
      if of_char CHR ''0'' \<le> n \<and> n \<le> of_char CHR ''9'' then Some (n - of_char CHR ''0'')
      else if of_char CHR ''a'' \<le> n \<and> n \<le> of_char CHR ''f'' then Some (n - of_char CHR ''a'' + 10)
      else if of_char CHR ''A'' \<le> n \<and> n \<le> of_char CHR ''F'' then Some (n - of_char CHR ''A'' + 10)
      else None)"

fun hex_Decode :: "string \<Rightarrow> error + 8 word list" where
  "hex_Decode [] = Inr []"
| "hex_Decode [p] =
     (case fromHexChar p of None \<Rightarrow> Inl (InvalidByteError p) | Some a \<Rightarrow> Inl ErrLength)"
| "hex_Decode (p # q # src) =
     (case fromHexChar p of
        None \<Rightarrow> Inl (InvalidByteError p)
      | Some a \<Rightarrow>
          (case fromHexChar q of
             None \<Rightarrow> Inl (InvalidByteError q)
           | Some b \<Rightarrow>
               (case hex_Decode src of
                  Inl err \<Rightarrow> Inl err
                | Inr dst \<Rightarrow> Inr (of_nat (a * 16 + b) # dst))))"

definition ObjectIDFromHex :: "string \<Rightarrow> error + ObjectID" where
  "ObjectIDFromHex s =
     (if length s \<noteq> 24 then Inl ErrInvalidHex
      else case hex_Decode s of Inl err \<Rightarrow> Inl err | Inr oid \<Rightarrow> Inr oid)"

text \<open>\<^verbatim>\<open>ObjectID.Hex\<close>: two lower-case digits for each byte.\<close>

definition hexdigit :: "nat \<Rightarrow> char" where
  "hexdigit n = ''0123456789abcdef'' ! (n mod 16)"

definition Hex :: "ObjectID \<Rightarrow> string" where
  "Hex oid = concat (map (\<lambda>b. [hexdigit (unat b div 16), hexdigit (unat b mod 16)]) oid)"

section \<open>Validation\<close>

text \<open>
  \<^verbatim>\<open>validate.Struct(employee)\<close> walks the struct's fields in their order. A field's
  tags are checked from left to right and the field is left at the first tag that fails,
  so that a field gives at most one \<open>FieldError\<close>. \<^verbatim>\<open>required\<close> fails on the zero
  value, for a string the empty one. \<^verbatim>\<open>email\<close> matches the library's regular
  expression for an address; the expression is the library's and enters as the parameter
  \<open>isEmail\<close>. The field \<^verbatim>\<open>ID\<close> has no \<^verbatim>\<open>validate\<close> tag and is not looked at.
  Neither tag has a parameter.
\<close>

definition tag_holds :: "(string \<Rightarrow> bool) \<Rightarrow> string \<Rightarrow> string \<Rightarrow> bool" where
  "tag_holds isEmail tag v =
     (if tag = ''required'' then v \<noteq> []
      else if tag = ''email'' then isEmail v
      else True)"

fun validate_field :: "(string \<Rightarrow> bool) \<Rightarrow> string \<Rightarrow> string list \<Rightarrow> string \<Rightarrow> FieldError list" where
  "validate_field isEmail f [] v = []"
| "validate_field isEmail f (tag # tags) v =
     (if tag_holds isEmail tag v then validate_field isEmail f tags v
      else [\<lparr>Field = f, Tag = tag, Param = []\<rparr>])"

definition validate_Struct :: "(string \<Rightarrow> bool) \<Rightarrow> Employee \<Rightarrow> error option" where
  "validate_Struct isEmail e =
     (let errs =
        validate_field isEmail ''Name'' [''required''] (Name e) @
        validate_field isEmail ''Email'' [''required'', ''email''] (Email e) @
        validate_field isEmail ''Phone'' [''required''] (Phone e) @
        validate_field isEmail ''Department'' [''required''] (Department e)
      in if errs = [] then None else Some (ValidationErrors errs))"

subsection \<open>\<^verbatim>\<open>formatValidationErrors\<close>\<close>

text \<open>\<^verbatim>\<open>strings.Join\<close>.\<close>

fun strings_Join :: "string list \<Rightarrow> string \<Rightarrow> string" where
  "strings_Join [] sep = []"
| "strings_Join [x] sep = x"
| "strings_Join (x # y # ys) sep = x @ sep @ strings_Join (y # ys) sep"

text \<open>The apostrophe of the messages, \<^verbatim>\<open>Field '%s' ...\<close>.\<close>

definition apostrophe :: string where
  "apostrophe = [CHR 0x27]"

text \<open>The body of the loop: the \<^verbatim>\<open>switch tag\<close>, case by case.\<close>

definition validation_msg :: "FieldError \<Rightarrow> string" where
  "validation_msg err =
     (let field = Field err; tag = Tag err; param = Param err;
          named = ''Field '' @ apostrophe @ field @ apostrophe
      in
      if tag = ''required'' then named @ '' is required''
      else if tag = ''min'' then named @ '' must be at least '' @ param
      else if tag = ''max'' then named @ '' must be at most '' @ param
      else if tag = ''gt'' then named @ '' must be greater than '' @ param
      else if tag = ''gte'' then named @ '' must be greater than or equal to '' @ param
      else if tag = ''lt'' then named @ '' must be less than '' @ param
      else if tag = ''lte'' then named @ '' must be less than or equal to '' @ param
      else if tag = ''email'' then named @ '' must be a valid email address''
      else named @ '' failed validation on the '' @ apostrophe @ tag @ apostrophe @ '' tag'')"

definition formatValidationErrors :: "FieldError list \<Rightarrow> string" where
  "formatValidationErrors errs = strings_Join (map validation_msg errs) '', ''"

section \<open>The store\<close>

subsection \<open>Documents and the BSON codec\<close>

text \<open>
  A document of the collection, as far as the service reads or writes it: its
  \<^verbatim>\<open>_id\<close>, an \<open>ObjectID\<close> (\<open>None\<close> in a document that has no \<^verbatim>\<open>_id\<close> element
  yet), and its other elements by key. A value is a BSON string or a value of a type that
  the codec does not decode into a Go string (a 32-bit integer, say).
\<close>

datatype bson_value = BsonString string | BsonInt32 "32 word"

record bson_D =
  oid :: "ObjectID option"
  elements :: "string \<rightharpoonup> bson_value"

type_synonym collection = "bson_D list"

text \<open>
  Marshalling follows the struct's \<^verbatim>\<open>bson\<close> tags. Every field is \<^verbatim>\<open>omitempty\<close>: a
  string is left out when it is empty, and the identifier when \<^verbatim>\<open>ObjectID.IsZero\<close>
  holds, that is, when it equals \<open>NilObjectID\<close>.
\<close>

definition omitempty :: "string \<Rightarrow> string \<Rightarrow> (string \<rightharpoonup> bson_value) \<Rightarrow> (string \<rightharpoonup> bson_value)" where
  "omitempty key v m = (if v = [] then m else m(key \<mapsto> BsonString v))"

definition bson_Marshal :: "Employee \<Rightarrow> bson_D" where
  "bson_Marshal e =
     \<lparr>oid = (if ID e = NilObjectID then None else Some (ID e)),
      elements =
        omitempty ''department'' (Department e)
          (omitempty ''phone'' (Phone e)
            (omitempty ''email'' (Email e)
              (omitempty ''name'' (Name e) Map.empty)))\<rparr>"

text \<open>
  Decoding into a fresh struct: an element that is missing leaves the field at its zero
  value, an element of another type than the field's is an error, and keys the struct
  does not name are skipped. Where several elements have a wrong type the codec reports
  the first in the document's order; a document here does not keep that order, and the
  first in the struct's order is reported.
\<close>

definition decode_string :: "string \<Rightarrow> bson_D \<Rightarrow> error + string" where
  "decode_string key d =
     (case elements d key of
        None \<Rightarrow> Inr []
      | Some (BsonString s) \<Rightarrow> Inr s
      | Some (BsonInt32 n) \<Rightarrow> Inl (ValueDecoderError key))"

definition bson_Unmarshal :: "bson_D \<Rightarrow> error + Employee" where
  "bson_Unmarshal d =
     (case decode_string ''name'' d of Inl err \<Rightarrow> Inl err | Inr name \<Rightarrow>
      case decode_string ''email'' d of Inl err \<Rightarrow> Inl err | Inr email \<Rightarrow>
      case decode_string ''phone'' d of Inl err \<Rightarrow> Inl err | Inr phone \<Rightarrow>
      case decode_string ''department'' d of Inl err \<Rightarrow> Inl err | Inr department \<Rightarrow>
        Inr \<lparr>ID = (case oid d of None \<Rightarrow> NilObjectID | Some i \<Rightarrow> i),
             Name = name, Email = email, Phone = phone, Department = department\<rparr>)"

subsection \<open>The driver\<close>

text \<open>
  What one request finds outside the program: whether the command it sends fails
  (\<open>fault\<close>, with the driver's message), whether the cursor of a \<^verbatim>\<open>Find\<close> breaks
  after it has delivered some documents (\<open>cursor_fault\<close>: how many, and the message),
  and the identifier \<^verbatim>\<open>bson.NewObjectID()\<close> returns when the driver needs one.
\<close>

record driver =
  fault :: "string option"
  cursor_fault :: "(nat \<times> string) option"
  NewObjectID :: ObjectID

text \<open>
  \<^verbatim>\<open>InsertOne\<close>: the driver adds an \<^verbatim>\<open>_id\<close> to a document that has none; the
  server refuses an \<^verbatim>\<open>_id\<close> the collection already holds, and otherwise stores the
  document, here as the last in the store's order. The result is the \<^verbatim>\<open>InsertedID\<close>.
\<close>

definition InsertOne :: "driver \<Rightarrow> collection \<Rightarrow> bson_D \<Rightarrow> (error + ObjectID) \<times> collection" where
  "InsertOne env c d =
     (case fault env of
        Some msg \<Rightarrow> (Inl (CommandError msg), c)
      | None \<Rightarrow>
          (let insertedID = (case oid d of None \<Rightarrow> NewObjectID env | Some i \<Rightarrow> i)
           in if Some insertedID \<in> set (map oid c) then (Inl (DuplicateKeyError insertedID), c)
              else (Inr insertedID, c @ [d\<lparr>oid := Some insertedID\<rparr>])))"

text \<open>
  \<^verbatim>\<open>UpdateOne\<close> with the filter \<^verbatim>\<open>{"_id": id}\<close> and the update
  \<^verbatim>\<open>{"$set": u}\<close>: the first document with that \<^verbatim>\<open>_id\<close> gets the elements of
  \<open>u\<close>, its other elements staying; an \<^verbatim>\<open>_id\<close> in \<open>u\<close> that differs from the
  document's is refused. No document matching is not an error. The result is the
  \<^verbatim>\<open>MatchedCount\<close>. (The handler only sends an update after validation, so that
  \<open>u\<close> has the four business fields to set.)
\<close>

definition set_elements :: "bson_D \<Rightarrow> bson_D \<Rightarrow> error + bson_D" where
  "set_elements u d =
     (if oid u \<noteq> None \<and> oid u \<noteq> oid d then Inl ImmutableFieldError
      else Inr (d\<lparr>elements := elements d ++ elements u\<rparr>))"

fun update_first :: "ObjectID \<Rightarrow> bson_D \<Rightarrow> collection \<Rightarrow> error + nat \<times> collection" where
  "update_first i u [] = Inr (0, [])"
| "update_first i u (d # ds) =
     (if oid d = Some i
      then (case set_elements u d of Inl err \<Rightarrow> Inl err | Inr d' \<Rightarrow> Inr (1, d' # ds))
      else (case update_first i u ds of
              Inl err \<Rightarrow> Inl err
            | Inr (n, ds') \<Rightarrow> Inr (n, d # ds')))"

definition UpdateOne :: "driver \<Rightarrow> collection \<Rightarrow> ObjectID \<Rightarrow> bson_D \<Rightarrow> (error + nat) \<times> collection" where
  "UpdateOne env c i u =
     (case fault env of
        Some msg \<Rightarrow> (Inl (CommandError msg), c)
      | None \<Rightarrow>
          (case update_first i u c of
             Inl err \<Rightarrow> (Inl err, c)
           | Inr (matchedCount, c') \<Rightarrow> (Inr matchedCount, c')))"

text \<open>
  \<^verbatim>\<open>DeleteOne\<close> with the filter \<^verbatim>\<open>{"_id": id}\<close> removes the first document with
  that \<^verbatim>\<open>_id\<close>. The result is the \<^verbatim>\<open>DeletedCount\<close>.
\<close>

fun delete_first :: "ObjectID \<Rightarrow> collection \<Rightarrow> nat \<times> collection" where
  "delete_first i [] = (0, [])"
| "delete_first i (d # ds) =
     (if oid d = Some i then (1, ds)
      else (case delete_first i ds of (n, ds') \<Rightarrow> (n, d # ds')))"

definition DeleteOne :: "driver \<Rightarrow> collection \<Rightarrow> ObjectID \<Rightarrow> (error + nat) \<times> collection" where
  "DeleteOne env c i =
     (case fault env of
        Some msg \<Rightarrow> (Inl (CommandError msg), c)
      | None \<Rightarrow> (case delete_first i c of (deletedCount, c') \<Rightarrow> (Inr deletedCount, c')))"

text \<open>
  \<^verbatim>\<open>Find\<close> with the empty filter gives a cursor over all documents in the store's
  order. A cursor holds the documents it will still deliver and the error it ends with,
  if it breaks: \<^verbatim>\<open>Next\<close> steps to the next document or returns false, at the end
  as well as on the error, and \<^verbatim>\<open>Err\<close> tells the two apart. A cursor that breaks after
  \<open>n\<close> documents has delivered the first \<open>n\<close>.
\<close>

record Cursor =
  batch :: "bson_D list"
  Err :: "error option"

definition Find :: "driver \<Rightarrow> collection \<Rightarrow> error + Cursor" where
  "Find env c =
     (case fault env of
        Some msg \<Rightarrow> Inl (CommandError msg)
      | None \<Rightarrow>
          (case cursor_fault env of
             None \<Rightarrow> Inr \<lparr>batch = c, Err = None\<rparr>
           | Some (n, msg) \<Rightarrow> Inr \<lparr>batch = take n c, Err = Some (CommandError msg)\<rparr>))"

section \<open>Requests and responses\<close>

text \<open>
  A Go slice is \<^verbatim>\<open>nil\<close> or holds elements; \<^verbatim>\<open>append\<close> to a nil slice allocates.
\<close>

datatype 'a slice = nil | Slice "'a list"

fun append_slice :: "'a slice \<Rightarrow> 'a \<Rightarrow> 'a slice" where
  "append_slice nil x = Slice [x]"
| "append_slice (Slice xs) x = Slice (xs @ [x])"

text \<open>
  A response body is a JSON value. A string of it is a literal text or
  \<^verbatim>\<open>fmt.Sprintf("<text>%v", err)\<close>, the text followed by the error's message.
\<close>

datatype jstring = Text string | Sprintf_v string error

datatype json = JNull | JString jstring | JArray "json list" | JObject "(string \<times> json) list"

text \<open>
  \<^verbatim>\<open>encoding/json\<close> on the struct: \<^verbatim>\<open>omitempty\<close> leaves out an empty string; an
  array is empty only when its length is zero, so the twelve bytes of \<^verbatim>\<open>id\<close> are always
  written, as the identifier's hexadecimal text. A nil slice is encoded as \<^verbatim>\<open>null\<close>,
  any other as an array.
\<close>

definition json_omitempty :: "string \<Rightarrow> string \<Rightarrow> (string \<times> json) list" where
  "json_omitempty key v = (if v = [] then [] else [(key, JString (Text v))])"

definition json_Employee :: "Employee \<Rightarrow> json" where
  "json_Employee e =
     JObject ([(''id'', JString (Text (Hex (ID e))))] @
              json_omitempty ''name'' (Name e) @
              json_omitempty ''email'' (Email e) @
              json_omitempty ''phone'' (Phone e) @
              json_omitempty ''department'' (Department e))"

fun json_Employees :: "Employee slice \<Rightarrow> json" where
  "json_Employees nil = JNull"
| "json_Employees (Slice es) = JArray (map json_Employee es)"

text \<open>\<^verbatim>\<open>map[string]string{key: v}\<close>, encoded.\<close>

definition json_map :: "string \<Rightarrow> jstring \<Rightarrow> json" where
  "json_map key v = JObject [(key, JString v)]"

text \<open>
  A request, after the router: the path variables (\<^verbatim>\<open>mux.Vars\<close>) and what
  \<^verbatim>\<open>json.NewDecoder(r.Body).Decode(&employee)\<close> gives, an error or the struct. A
  response is the status written and the body; a handler that writes a body without
  \<^verbatim>\<open>WriteHeader\<close> answers 200.
\<close>

record Request =
  Vars :: "string \<rightharpoonup> string"
  Body :: "error + Employee"

record Response =
  status :: nat
  body :: json

definition StatusOK :: nat where "StatusOK = 200"
definition StatusBadRequest :: nat where "StatusBadRequest = 400"
definition StatusInternalServerError :: nat where "StatusInternalServerError = 500"

text \<open>Indexing a Go map gives the zero value for a key it does not hold.\<close>

definition params :: "Request \<Rightarrow> string \<Rightarrow> string" where
  "params r key = (case Vars r key of None \<Rightarrow> [] | Some v \<Rightarrow> v)"

section \<open>The persistence functions of \<^verbatim>\<open>controllers.go\<close>\<close>

definition insertOneEmployee :: "driver \<Rightarrow> collection \<Rightarrow> Employee \<Rightarrow> error option \<times> collection" where
  "insertOneEmployee env c employee =
     (case InsertOne env c (bson_Marshal employee) of
        (Inl err, c') \<Rightarrow> (Some (Errorf_w ''error inserting employee: '' err), c')
      | (Inr result, c') \<Rightarrow> (None, c'))"

definition updateOneEmployee :: "driver \<Rightarrow> collection \<Rightarrow> string \<Rightarrow> Employee \<Rightarrow> error option \<times> collection" where
  "updateOneEmployee env c employeeID employee =
     (case ObjectIDFromHex employeeID of
        Inl err \<Rightarrow> (Some (Errorf_w ''invalid employee ID format: '' err), c)
      | Inr i \<Rightarrow>
          (case UpdateOne env c i (bson_Marshal employee) of
             (Inl err, c') \<Rightarrow> (Some (Errorf_w ''error updating employee: '' err), c')
           | (Inr updateResult, c') \<Rightarrow> (None, c')))"

definition deleteOneEmployee :: "driver \<Rightarrow> collection \<Rightarrow> string \<Rightarrow> error option \<times> collection" where
  "deleteOneEmployee env c employeeID =
     (case ObjectIDFromHex employeeID of
        Inl err \<Rightarrow> (Some (Errorf_w ''invalid employee ID format: '' err), c)
      | Inr i \<Rightarrow>
          (case DeleteOne env c i of
             (Inl err, c') \<Rightarrow> (Some (Errorf_w ''error deleting employee: '' err), c')
           | (Inr deletedCount, c') \<Rightarrow>
               if deletedCount = 0
               then (Some (Errorf (''no employee found with ID: '' @ employeeID)), c')
               else (None, c')))"

text \<open>
  The loop of \<^verbatim>\<open>getAllEmployees\<close>, over the documents the cursor still delivers:
  a document that does not decode ends it with \<^verbatim>\<open>(nil, error)\<close>; when \<^verbatim>\<open>Next\<close>
  returns false, \<^verbatim>\<open>cur.Err()\<close> decides.
\<close>

fun collect :: "bson_D list \<Rightarrow> error option \<Rightarrow> Employee slice \<Rightarrow> Employee slice \<times> error option" where
  "collect [] cur_err employees =
     (case cur_err of
        Some e \<Rightarrow> (nil, Some (Errorf_w ''cursor error: '' e))
      | None \<Rightarrow> (employees, None))"
| "collect (d # ds) cur_err employees =
     (case bson_Unmarshal d of
        Inl e \<Rightarrow> (nil, Some (Errorf_w ''error decoding employee: '' e))
      | Inr employee \<Rightarrow> collect ds cur_err (append_slice employees employee))"

definition getAllEmployees :: "driver \<Rightarrow> collection \<Rightarrow> Employee slice \<times> error option" where
  "getAllEmployees env c =
     (case Find env c of
        Inl e \<Rightarrow> (nil, Some (Errorf_w ''error finding employees: '' e))
      | Inr cur \<Rightarrow> collect (batch cur) (Err cur) nil)"

section \<open>The handlers of \<^verbatim>\<open>controllers.go\<close>\<close>

definition GetAllEmployees :: "driver \<Rightarrow> collection \<Rightarrow> Response" where
  "GetAllEmployees env c =
     (case getAllEmployees env c of
        (employees, Some e) \<Rightarrow>
          \<lparr>status = StatusInternalServerError,
           body = json_map ''error'' (Sprintf_v ''Failed to retrieve employees: '' e)\<rparr>
      | (employees, None) \<Rightarrow> \<lparr>status = StatusOK, body = json_Employees employees\<rparr>)"

definition CreateEmployee :: "(string \<Rightarrow> bool) \<Rightarrow> driver \<Rightarrow> collection \<Rightarrow> Request \<Rightarrow> Response \<times> collection" where
  "CreateEmployee isEmail env c r =
     (case Body r of
        Inl e \<Rightarrow>
          (\<lparr>status = StatusBadRequest,
            body = json_map ''error'' (Sprintf_v ''Invalid request payload: '' e)\<rparr>, c)
      | Inr employee \<Rightarrow>
          (case validate_Struct isEmail employee of
             Some (ValidationErrors validationErrors) \<Rightarrow>
               (\<lparr>status = StatusBadRequest,
                 body = json_map ''error'' (Text (formatValidationErrors validationErrors))\<rparr>, c)
           | Some e \<Rightarrow>
               (\<lparr>status = StatusBadRequest,
                 body = json_map ''error'' (Sprintf_v ''Validation error: '' e)\<rparr>, c)
           | None \<Rightarrow>
               (case insertOneEmployee env c employee of
                  (Some e, c') \<Rightarrow>
                    (\<lparr>status = StatusInternalServerError,
                      body = json_map ''error'' (Sprintf_v ''Failed to insert employee: '' e)\<rparr>, c')
                | (None, c') \<Rightarrow>
                    (\<lparr>status = StatusOK,
                      body = json_map ''message'' (Text ''Employee created successfully'')\<rparr>, c'))))"

definition UpdateEmployee :: "(string \<Rightarrow> bool) \<Rightarrow> driver \<Rightarrow> collection \<Rightarrow> Request \<Rightarrow> Response \<times> collection" where
  "UpdateEmployee isEmail env c r =
     (let employeeID = params r ''id'' in
      case Body r of
        Inl e \<Rightarrow>
          (\<lparr>status = StatusBadRequest,
            body = json_map ''error'' (Sprintf_v ''Invalid request payload: '' e)\<rparr>, c)
      | Inr employee \<Rightarrow>
          (case validate_Struct isEmail employee of
             Some (ValidationErrors validationErrors) \<Rightarrow>
               (\<lparr>status = StatusBadRequest,
                 body = json_map ''error'' (Text (formatValidationErrors validationErrors))\<rparr>, c)
           | Some e \<Rightarrow>
               (\<lparr>status = StatusBadRequest,
                 body = json_map ''error'' (Sprintf_v ''Validation error: '' e)\<rparr>, c)
           | None \<Rightarrow>
               (case updateOneEmployee env c employeeID employee of
                  (Some e, c') \<Rightarrow>
                    (\<lparr>status = StatusInternalServerError,
                      body = json_map ''error'' (Sprintf_v ''Failed to update employee: '' e)\<rparr>, c')
                | (None, c') \<Rightarrow>
                    (\<lparr>status = StatusOK,
                      body = json_map ''message'' (Text ''Employee updated successfully'')\<rparr>, c'))))"

definition DeleteEmployee :: "driver \<Rightarrow> collection \<Rightarrow> Request \<Rightarrow> Response \<times> collection" where
  "DeleteEmployee env c r =
     (let employeeID = params r ''id'' in
      case deleteOneEmployee env c employeeID of
        (Some e, c') \<Rightarrow>
          (\<lparr>status = StatusInternalServerError,
            body = json_map ''error'' (Sprintf_v ''Failed to delete employee: '' e)\<rparr>, c')
      | (None, c') \<Rightarrow>
          (\<lparr>status = StatusOK,
            body = json_map ''message'' (Text ''Employee deleted successfully'')\<rparr>, c'))"

section \<open>Vocabulary of the properties\<close>

text \<open>
  The rules of the specification for a payload: \<^verbatim>\<open>name\<close>, \<^verbatim>\<open>phone\<close> and
  \<^verbatim>\<open>department\<close> are non-empty, \<^verbatim>\<open>email\<close> is non-empty and an address.
\<close>

definition valid_payload :: "(string \<Rightarrow> bool) \<Rightarrow> Employee \<Rightarrow> bool" where
  "valid_payload isEmail e =
     (Name e \<noteq> [] \<and> Phone e \<noteq> [] \<and> Department e \<noteq> [] \<and> Email e \<noteq> [] \<and> isEmail (Email e))"

text \<open>
  The fields of a payload that break their rule, in the struct's order, and the message
  the specification gives for each: a required field that is empty, an address that is
  malformed.
\<close>

definition violated :: "(string \<Rightarrow> bool) \<Rightarrow> Employee \<Rightarrow> string list" where
  "violated isEmail e =
     (if Name e = [] then [''Name''] else []) @
     (if Email e = [] \<or> \<not> isEmail (Email e) then [''Email''] else []) @
     (if Phone e = [] then [''Phone''] else []) @
     (if Department e = [] then [''Department''] else [])"

definition violation_message :: "Employee \<Rightarrow> string \<Rightarrow> string" where
  "violation_message e f =
     (if f = ''Email'' \<and> Email e \<noteq> [] then ''Field 'Email' must be a valid email address''
      else ''Field '' @ apostrophe @ f @ apostrophe @ '' is required'')"

text \<open>
  A well-formed identifier, in the specification's words: 24 hexadecimal characters.
\<close>

definition is_hex_digit :: "char \<Rightarrow> bool" where
  "is_hex_digit c =
     (let n = of_char c :: nat in
      (of_char CHR ''0'' \<le> n \<and> n \<le> of_char CHR ''9'') \<or>
      (of_char CHR ''a'' \<le> n \<and> n \<le> of_char CHR ''f'') \<or>
      (of_char CHR ''A'' \<le> n \<and> n \<le> of_char CHR ''F''))"

definition well_formed_id :: "string \<Rightarrow> bool" where
  "well_formed_id s = (length s = 24 \<and> list_all is_hex_digit s)"

text \<open>
  The collection as the server keeps it: every document has an \<^verbatim>\<open>_id\<close>, and no two
  documents share one.
\<close>

definition wf_collection :: "collection \<Rightarrow> bool" where
  "wf_collection c = (None \<notin> set (map oid c) \<and> distinct (map oid c))"

text \<open>The elements of a slice, none for \<^verbatim>\<open>nil\<close>.\<close>

fun elems :: "'a slice \<Rightarrow> 'a list" where
  "elems nil = []"
| "elems (Slice xs) = xs"

text \<open>A record carries the four business fields of a payload.\<close>

definition matches :: "Employee \<Rightarrow> Employee \<Rightarrow> bool" where
  "matches e x =
     (Name x = Name e \<and> Email x = Email e \<and> Phone x = Phone e \<and> Department x = Department e)"

subsection \<open>Example inputs\<close>

text \<open>
  A stand-in for the validator's address rule on the examples (it agrees with the rule on
  them), a driver that meets no failure, and the payload of the specification's scenario.
\<close>

definition has_at :: "string \<Rightarrow> bool" where
  "has_at s = (CHR ''@'' \<in> set s)"

definition working :: driver where
  "working = \<lparr>fault = None, cursor_fault = None,
              NewObjectID = [0x65, 0x4f, 0x1a, 0x2b, 0x3c, 0x4d, 0x5e, 0x6f, 0x70, 0x81, 0x92, 0xa3]\<rparr>"

definition ann :: Employee where
  "ann = \<lparr>ID = NilObjectID, Name = ''Ann'', Email = ''ann@x.com'', Phone = ''123'',
          Department = ''Eng''\<rparr>"

text \<open>
  A store that holds two records, under the identifiers
  \<^verbatim>\<open>507f1f77bcf86cd799439011\<close> and \<^verbatim>\<open>507f1f77bcf86cd799439013\<close>.
\<close>

definition bob :: Employee where
  "bob = \<lparr>ID = [0x50, 0x7f, 0x1f, 0x77, 0xbc, 0xf8, 0x6c, 0xd7, 0x99, 0x43, 0x90, 0x11],
          Name = ''Bob'', Email = ''bob@x.com'', Phone = ''456'', Department = ''Ops''\<rparr>"

definition carol :: Employee where
  "carol = \<lparr>ID = [0x50, 0x7f, 0x1f, 0x77, 0xbc, 0xf8, 0x6c, 0xd7, 0x99, 0x43, 0x90, 0x13],
            Name = ''Carol'', Email = ''carol@x.com'', Phone = ''789'', Department = ''Eng''\<rparr>"

definition staff :: collection where
  "staff = [bson_Marshal bob, bson_Marshal carol]"

text \<open>
  A payload that brings its own identifier, a driver whose cursor breaks after the first
  document, and a document whose \<^verbatim>\<open>name\<close> is a number.
\<close>

definition dave :: Employee where
  "dave = \<lparr>ID = [0x50, 0x7f, 0x1f, 0x77, 0xbc, 0xf8, 0x6c, 0xd7, 0x99, 0x43, 0x90, 0x14],
           Name = ''Dave'', Email = ''dave@x.com'', Phone = ''321'', Department = ''Ops''\<rparr>"

definition broken :: driver where
  "broken = \<lparr>fault = None, cursor_fault = Some (1, ''connection reset by peer''),
             NewObjectID = NilObjectID\<rparr>"

definition odd_document :: bson_D where
  "odd_document =
     \<lparr>oid = Some [0x50, 0x7f, 0x1f, 0x77, 0xbc, 0xf8, 0x6c, 0xd7, 0x99, 0x43, 0x90, 0x15],
      elements = [''name'' \<mapsto> BsonInt32 7]\<rparr>"

section \<open>Lemmas\<close>

subsection \<open>Validation\<close>

lemma validate_Struct_errors:
  "validate_Struct isEmail e =
     (if valid_payload isEmail e then None
      else Some (ValidationErrors
        (map (\<lambda>f. \<lparr>Field = f,
                    Tag = (if f = ''Email'' \<and> Email e \<noteq> [] then ''email'' else ''required''),
                    Param = []\<rparr>)
             (violated isEmail e))))"
  by (simp add: validate_Struct_def valid_payload_def violated_def tag_holds_def Let_def)

lemma validation_msg_violation:
  "validation_msg
     \<lparr>Field = f, Tag = (if f = ''Email'' \<and> Email e \<noteq> [] then ''email'' else ''required''),
      Param = []\<rparr>
   = violation_message e f"
  by (simp add: validation_msg_def violation_message_def apostrophe_def Let_def)

lemma formatValidationErrors_violated:
  "formatValidationErrors
     (map (\<lambda>f. \<lparr>Field = f,
                 Tag = (if f = ''Email'' \<and> Email e \<noteq> [] then ''email'' else ''required''),
                 Param = []\<rparr>) fs)
   = strings_Join (map (violation_message e) fs) '', ''"
  unfolding formatValidationErrors_def map_map comp_def validation_msg_violation ..

lemma CreateEmployee_invalid:
  "\<not> valid_payload isEmail e \<Longrightarrow> Body r = Inr e \<Longrightarrow>
   CreateEmployee isEmail env c r =
     (\<lparr>status = 400,
       body = json_map ''error''
         (Text (strings_Join (map (violation_message e) (violated isEmail e)) '', ''))\<rparr>, c)"
  by (simp add: CreateEmployee_def validate_Struct_errors formatValidationErrors_violated
      StatusBadRequest_def)

lemma UpdateEmployee_invalid:
  "\<not> valid_payload isEmail e \<Longrightarrow> Body r = Inr e \<Longrightarrow>
   UpdateEmployee isEmail env c r =
     (\<lparr>status = 400,
       body = json_map ''error''
         (Text (strings_Join (map (violation_message e) (violated isEmail e)) '', ''))\<rparr>, c)"
  by (simp add: UpdateEmployee_def validate_Struct_errors formatValidationErrors_violated
      StatusBadRequest_def)

lemma CreateEmployee_valid_status:
  "valid_payload isEmail e \<Longrightarrow> Body r = Inr e \<Longrightarrow>
   status (fst (CreateEmployee isEmail env c r)) \<in> {200, 500}"
  by (simp add: CreateEmployee_def validate_Struct_errors StatusOK_def
      StatusInternalServerError_def split: prod.splits option.splits)

lemma UpdateEmployee_valid_status:
  "valid_payload isEmail e \<Longrightarrow> Body r = Inr e \<Longrightarrow>
   status (fst (UpdateEmployee isEmail env c r)) \<in> {200, 500}"
  by (simp add: UpdateEmployee_def validate_Struct_errors StatusOK_def
      StatusInternalServerError_def split: prod.splits option.splits)

subsection \<open>Identifiers\<close>

text \<open>
  \<^verbatim>\<open>ObjectIDFromHex\<close> accepts exactly the well-formed identifiers, and what it
  returns has twelve bytes.
\<close>

lemma fromHexChar_None: "(fromHexChar c = None) = (\<not> is_hex_digit c)"
  by (simp add: fromHexChar_def is_hex_digit_def Let_def)

lemma hex_Decode_ok:
  "(\<exists>bs. hex_Decode s = Inr bs) = (even (length s) \<and> list_all is_hex_digit s)"
proof (induction s rule: hex_Decode.induct)
  case 1
  show ?case by simp
next
  case (2 p)
  show ?case by (simp split: option.splits)
next
  case (3 p q src)
  show ?case
  proof (cases "fromHexChar p")
    case None
    then show ?thesis using fromHexChar_None [of p] by simp
  next
    case a: (Some a)
    show ?thesis
    proof (cases "fromHexChar q")
      case None
      with a show ?thesis using fromHexChar_None [of q] by simp
    next
      case b: (Some b)
      from a b have "is_hex_digit p" "is_hex_digit q"
        using fromHexChar_None [of p] fromHexChar_None [of q] by auto
      with a b 3 [OF a b] show ?thesis
        by (auto split: sum.splits)
    qed
  qed
qed

lemma hex_Decode_length: "hex_Decode s = Inr bs \<Longrightarrow> length s = 2 * length bs"
proof (induction s arbitrary: bs rule: hex_Decode.induct)
  case 1
  then show ?case by simp
next
  case (2 p)
  then show ?case by (simp split: option.splits)
next
  case (3 p q src)
  from "3.prems" obtain a b dst where
    "fromHexChar p = Some a" "fromHexChar q = Some b" "hex_Decode src = Inr dst"
    "bs = of_nat (a * 16 + b) # dst"
    by (auto split: option.splits sum.splits)
  with "3.IH" [of a b dst] show ?case by simp
qed

lemma ObjectIDFromHex_well_formed:
  "(\<exists>i. ObjectIDFromHex s = Inr i) = well_formed_id s"
proof (cases "length s = 24")
  case True
  then have "even (length s)" by simp
  with True hex_Decode_ok [of s] show ?thesis
    by (auto simp add: ObjectIDFromHex_def well_formed_id_def split: sum.splits)
next
  case False
  then show ?thesis by (simp add: ObjectIDFromHex_def well_formed_id_def)
qed

lemma ObjectIDFromHex_length: "ObjectIDFromHex s = Inr i \<Longrightarrow> length i = 12"
  using hex_Decode_length [of s i]
  by (auto simp add: ObjectIDFromHex_def split: if_splits sum.splits)

lemma length_Hex: "length (Hex i) = 2 * length i"
  by (induction i) (simp_all add: Hex_def)

subsection \<open>The store\<close>

lemma update_first_miss:
  "Some i \<notin> set (map oid c) \<Longrightarrow> update_first i u c = Inr (0, c)"
  by (induction c) auto

lemma update_first_hit:
  "k < length c \<Longrightarrow> oid (c ! k) = Some i \<Longrightarrow> \<forall>j<k. oid (c ! j) \<noteq> Some i \<Longrightarrow>
   update_first i u c =
     (case set_elements u (c ! k) of Inl e \<Rightarrow> Inl e | Inr d' \<Rightarrow> Inr (1, c[k := d']))"
proof (induction c arbitrary: k)
  case Nil
  then show ?case by simp
next
  case (Cons d ds)
  show ?case
  proof (cases k)
    case 0
    with Cons.prems show ?thesis by (simp split: sum.splits)
  next
    case (Suc k')
    from Cons.prems Suc have d: "oid d \<noteq> Some i" by auto
    from Cons.prems Suc have "k' < length ds" "oid (ds ! k') = Some i"
      "\<forall>j<k'. oid (ds ! j) \<noteq> Some i" by auto
    from Cons.IH [OF this] d Suc show ?thesis by (simp split: sum.splits)
  qed
qed

lemma distinct_first_match:
  assumes "distinct (map oid c)" "k < length c" "oid (c ! k) = Some i"
  shows "\<forall>j<k. oid (c ! j) \<noteq> Some i"
proof (intro allI impI)
  fix j assume "j < k"
  with assms have "map oid c ! j \<noteq> map oid c ! k"
    by (simp add: nth_eq_iff_index_eq del: nth_map)
  with assms \<open>j < k\<close> show "oid (c ! j) \<noteq> Some i" by simp
qed

lemma delete_first_count:
  "fst (delete_first i c) = (if Some i \<in> set (map oid c) then 1 else 0)"
  by (induction c) (auto split: prod.splits)

lemma delete_first_miss:
  "Some i \<notin> set (map oid c) \<Longrightarrow> delete_first i c = (0, c)"
  by (induction c) auto

lemma delete_first_length:
  "Some i \<in> set (map oid c) \<Longrightarrow> Suc (length (snd (delete_first i c))) = length c"
  by (induction c) (auto split: prod.splits)

lemma delete_first_distinct:
  "distinct (map oid c) \<Longrightarrow> snd (delete_first i c) = filter (\<lambda>d. oid d \<noteq> Some i) c"
proof (induction c)
  case Nil
  then show ?case by simp
next
  case (Cons d ds)
  show ?case
  proof (cases "oid d = Some i")
    case True
    with Cons.prems have "Some i \<notin> set (map oid ds)" by auto
    then have "filter (\<lambda>d. oid d \<noteq> Some i) ds = ds"
      by (induction ds) auto
    with True show ?thesis by simp
  next
    case False
    with Cons show ?thesis by (auto split: prod.splits)
  qed
qed

subsection \<open>The loop of \<^verbatim>\<open>getAllEmployees\<close>\<close>

lemma elems_append: "elems (append_slice s x) = elems s @ [x]"
  by (cases s) auto

lemma elems_foldl_append: "elems (foldl append_slice s xs) = elems s @ xs"
  by (induction xs arbitrary: s) (auto simp: elems_append)

lemma collect_error_nil:
  "snd (collect ds ce acc) \<noteq> None \<Longrightarrow> fst (collect ds ce acc) = nil"
  by (induction ds arbitrary: acc) (auto split: option.splits sum.splits)

lemma collect_ok_iff:
  "(snd (collect ds ce acc) = None) =
   (ce = None \<and> (\<forall>d\<in>set ds. \<exists>x. bson_Unmarshal d = Inr x))"
  by (induction ds arbitrary: acc) (auto split: option.splits sum.splits)

lemma collect_ok:
  "map bson_Unmarshal ds = map Inr es \<Longrightarrow> collect ds None acc = (foldl append_slice acc es, None)"
proof (induction ds arbitrary: acc es)
  case Nil
  then show ?case by simp
next
  case (Cons d ds)
  then obtain x xs where es: "es = x # xs" by (cases es) auto
  with Cons.prems have "bson_Unmarshal d = Inr x" "map bson_Unmarshal ds = map Inr xs" by auto
  with Cons.IH [of xs "append_slice acc x"] es show ?case by simp
qed

lemma collect_members:
  "x \<in> set (elems (fst (collect ds ce acc))) \<Longrightarrow>
   x \<in> set (elems acc) \<or> (\<exists>d\<in>set ds. bson_Unmarshal d = Inr x)"
proof (induction ds arbitrary: acc)
  case Nil
  then show ?case by (auto split: option.splits)
next
  case (Cons d ds)
  show ?case
  proof (cases "bson_Unmarshal d")
    case (Inl e)
    with Cons.prems show ?thesis by simp
  next
    case (Inr y)
    with Cons.prems have "x \<in> set (elems (fst (collect ds ce (append_slice acc y))))" by simp
    from Cons.IH [OF this] Inr show ?thesis by (auto simp: elems_append)
  qed
qed

lemma bson_Unmarshal_ID:
  "bson_Unmarshal d = Inr x \<Longrightarrow> ID x = (case oid d of None \<Rightarrow> NilObjectID | Some i \<Rightarrow> i)"
  by (auto simp: bson_Unmarshal_def split: sum.splits)

lemma bson_Unmarshal_Marshal:
  "bson_Unmarshal ((bson_Marshal e)\<lparr>oid := Some i\<rparr>) = Inr (e\<lparr>ID := i\<rparr>)"
  by (simp add: bson_Unmarshal_def bson_Marshal_def decode_string_def omitempty_def)

subsection \<open>The handlers on a payload that passes validation\<close>

lemma validate_Struct_valid: "valid_payload isEmail e \<Longrightarrow> validate_Struct isEmail e = None"
  by (simp add: validate_Struct_errors)

lemma UpdateEmployee_valid:
  assumes "Body r = Inr e" "valid_payload isEmail e" "ObjectIDFromHex (params r ''id'') = Inr i"
  shows "UpdateEmployee isEmail env c r =
    (case UpdateOne env c i (bson_Marshal e) of
       (Inl err, c') \<Rightarrow>
         (\<lparr>status = 500,
           body = json_map ''error'' (Sprintf_v ''Failed to update employee: ''
                    (Errorf_w ''error updating employee: '' err))\<rparr>, c')
     | (Inr n, c') \<Rightarrow>
         (\<lparr>status = 200,
           body = json_map ''message'' (Text ''Employee updated successfully'')\<rparr>, c'))"
  using assms
  by (simp add: UpdateEmployee_def validate_Struct_valid updateOneEmployee_def
      StatusInternalServerError_def StatusOK_def split: prod.splits sum.splits)

lemma CreateEmployee_valid:
  assumes "Body r = Inr e" "valid_payload isEmail e"
  shows "CreateEmployee isEmail env c r =
    (case InsertOne env c (bson_Marshal e) of
       (Inl err, c') \<Rightarrow>
         (\<lparr>status = 500,
           body = json_map ''error'' (Sprintf_v ''Failed to insert employee: ''
                    (Errorf_w ''error inserting employee: '' err))\<rparr>, c')
     | (Inr k, c') \<Rightarrow>
         (\<lparr>status = 200,
           body = json_map ''message'' (Text ''Employee created successfully'')\<rparr>, c'))"
  using assms
  by (simp add: CreateEmployee_def validate_Struct_valid insertOneEmployee_def
      StatusInternalServerError_def StatusOK_def split: prod.splits sum.splits)

lemma DeleteEmployee_cases:
  "DeleteEmployee env c r =
     (case deleteOneEmployee env c (params r ''id'') of
        (Some e, c') \<Rightarrow>
          (\<lparr>status = 500,
            body = json_map ''error'' (Sprintf_v ''Failed to delete employee: '' e)\<rparr>, c')
      | (None, c') \<Rightarrow>
          (\<lparr>status = 200,
            body = json_map ''message'' (Text ''Employee deleted successfully'')\<rparr>, c'))"
  by (simp add: DeleteEmployee_def StatusInternalServerError_def StatusOK_def
      split: prod.splits option.splits)

lemma deleteOneEmployee_malformed:
  "ObjectIDFromHex s = Inl e \<Longrightarrow>
   deleteOneEmployee env c s = (Some (Errorf_w ''invalid employee ID format: '' e), c)"
  by (simp add: deleteOneEmployee_def)

lemma DeleteOne_working:
  "fault env = None \<Longrightarrow>
   DeleteOne env c i = (Inr (if Some i \<in> set (map oid c) then 1 else 0), snd (delete_first i c))"
  using delete_first_count [of i c]
  by (auto simp add: DeleteOne_def split: prod.splits)

lemma deleteOneEmployee_missing:
  "ObjectIDFromHex s = Inr i \<Longrightarrow> fault env = None \<Longrightarrow> Some i \<notin> set (map oid c) \<Longrightarrow>
   deleteOneEmployee env c s = (Some (Errorf (''no employee found with ID: '' @ s)), c)"
  by (simp add: deleteOneEmployee_def DeleteOne_working delete_first_miss)

lemma deleteOneEmployee_present:
  "ObjectIDFromHex s = Inr i \<Longrightarrow> fault env = None \<Longrightarrow> Some i \<in> set (map oid c) \<Longrightarrow>
   deleteOneEmployee env c s = (None, snd (delete_first i c))"
  by (simp add: deleteOneEmployee_def DeleteOne_working)

lemma deleteOneEmployee_fault:
  "ObjectIDFromHex s = Inr i \<Longrightarrow> fault env = Some msg \<Longrightarrow>
   deleteOneEmployee env c s = (Some (Errorf_w ''error deleting employee: '' (CommandError msg)), c)"
  by (simp add: deleteOneEmployee_def DeleteOne_def)

subsection \<open>The example inputs\<close>

lemma ObjectIDFromHex_xyz: "ObjectIDFromHex ''xyz'' = Inl ErrInvalidHex"
  by (simp add: ObjectIDFromHex_def)

lemma valid_ann: "valid_payload has_at ann"
  by (simp add: valid_payload_def has_at_def ann_def)

lemma ObjectIDFromHex_example:
  "ObjectIDFromHex ''507f1f77bcf86cd799439011'' =
     Inr [0x50, 0x7f, 0x1f, 0x77, 0xbc, 0xf8, 0x6c, 0xd7, 0x99, 0x43, 0x90, 0x11]"
  by (simp add: ObjectIDFromHex_def fromHexChar_def)

lemma oid_staff:
  "map oid staff =
     [Some [0x50, 0x7f, 0x1f, 0x77, 0xbc, 0xf8, 0x6c, 0xd7, 0x99, 0x43, 0x90, 0x11],
      Some [0x50, 0x7f, 0x1f, 0x77, 0xbc, 0xf8, 0x6c, 0xd7, 0x99, 0x43, 0x90, 0x13]]"
  by (simp add: staff_def bson_Marshal_def bob_def carol_def NilObjectID_def)

lemma ObjectIDFromHex_other:
  "ObjectIDFromHex ''507f1f77bcf86cd799439012'' =
     Inr [0x50, 0x7f, 0x1f, 0x77, 0xbc, 0xf8, 0x6c, 0xd7, 0x99, 0x43, 0x90, 0x12]"
  by (simp add: ObjectIDFromHex_def fromHexChar_def)

subsection \<open>Inserting and listing\<close>

lemma InsertOne_working:
  "fault env = None \<Longrightarrow>
   InsertOne env c d =
     (let insertedID = (case oid d of None \<Rightarrow> NewObjectID env | Some i \<Rightarrow> i)
      in if Some insertedID \<in> set (map oid c) then (Inl (DuplicateKeyError insertedID), c)
         else (Inr insertedID, c @ [d\<lparr>oid := Some insertedID\<rparr>]))"
  by (simp add: InsertOne_def)

lemma oid_bson_Marshal:
  "oid (bson_Marshal e) = (if ID e = NilObjectID then None else Some (ID e))"
  by (simp add: bson_Marshal_def)

lemma getAllEmployees_working:
  "fault env = None \<Longrightarrow> cursor_fault env = None \<Longrightarrow>
   getAllEmployees env c = collect c None nil"
  by (simp add: getAllEmployees_def Find_def)

lemma GetAllEmployees_cases:
  "GetAllEmployees env c =
     (case getAllEmployees env c of
        (employees, Some e) \<Rightarrow>
          \<lparr>status = 500,
           body = json_map ''error'' (Sprintf_v ''Failed to retrieve employees: '' e)\<rparr>
      | (employees, None) \<Rightarrow> \<lparr>status = 200, body = json_Employees employees\<rparr>)"
  by (simp add: GetAllEmployees_def StatusInternalServerError_def StatusOK_def
      split: prod.splits option.splits)

lemma decoded_IDs:
  assumes "map bson_Unmarshal c = map Inr xs" "x \<in> set xs"
  shows "\<exists>d\<in>set c. ID x = (case oid d of None \<Rightarrow> NilObjectID | Some i \<Rightarrow> i)"
proof -
  from assms(2) obtain k where k: "k < length xs" "xs ! k = x"
    by (auto simp: in_set_conv_nth)
  from assms(1) have len: "length c = length xs"
    by (metis length_map)
  from assms(1) have "map bson_Unmarshal c ! k = map Inr xs ! k" by simp
  with k len have "bson_Unmarshal (c ! k) = Inr x" by simp
  from bson_Unmarshal_ID [OF this] k len show ?thesis
    by (metis nth_mem)
qed

lemma fresh_ID:
  assumes "map bson_Unmarshal c = map Inr xs" "i \<noteq> NilObjectID" "Some i \<notin> set (map oid c)"
  shows "i \<notin> ID ` set xs"
proof
  assume "i \<in> ID ` set xs"
  then obtain x where x: "x \<in> set xs" "ID x = i" by auto
  from decoded_IDs [OF assms(1) x(1)] obtain d where
    d: "d \<in> set c" "ID x = (case oid d of None \<Rightarrow> NilObjectID | Some i \<Rightarrow> i)" by auto
  show False
  proof (cases "oid d")
    case None
    with d x assms(2) show False by simp
  next
    case (Some j)
    with d x have "oid d = Some i" by simp
    with d(1) assms(3) show False by force
  qed
qed

lemma json_Employee_valid:
  "valid_payload isEmail e \<Longrightarrow>
   json_Employee (e\<lparr>ID := i\<rparr>) =
     JObject [(''id'', JString (Text (Hex i))), (''name'', JString (Text (Name e))),
              (''email'', JString (Text (Email e))), (''phone'', JString (Text (Phone e))),
              (''department'', JString (Text (Department e)))]"
  by (simp add: json_Employee_def json_omitempty_def valid_payload_def)

lemma getAllEmployees_members:
  assumes "x \<in> set (elems (fst (getAllEmployees env c)))"
  shows "\<exists>d\<in>set c. bson_Unmarshal d = Inr x"
proof (cases "Find env c")
  case (Inl e)
  with assms show ?thesis by (simp add: getAllEmployees_def)
next
  case (Inr cur)
  with assms have "x \<in> set (elems (fst (collect (batch cur) (Err cur) nil)))"
    by (simp add: getAllEmployees_def)
  from collect_members [OF this] obtain d where d: "d \<in> set (batch cur)" "bson_Unmarshal d = Inr x"
    by auto
  from Inr have "set (batch cur) \<subseteq> set c"
    by (auto simp add: Find_def split: option.splits dest: in_set_takeD)
  with d show ?thesis by auto
qed

lemma collect_cursor_error:
  "map bson_Unmarshal ds = map Inr es \<Longrightarrow>
   collect ds (Some ce) acc = (nil, Some (Errorf_w ''cursor error: '' ce))"
proof (induction ds arbitrary: acc es)
  case Nil
  then show ?case by simp
next
  case (Cons d ds)
  then obtain x xs where "es = x # xs" by (cases es) auto
  with Cons.prems have "bson_Unmarshal d = Inr x" "map bson_Unmarshal ds = map Inr xs" by auto
  with Cons.IH [of xs "append_slice acc x"] show ?case by simp
qed

lemma collect_decode_error:
  "map bson_Unmarshal ds = map Inr es \<Longrightarrow> bson_Unmarshal d = Inl e \<Longrightarrow>
   collect (ds @ d # ds') ce acc = (nil, Some (Errorf_w ''error decoding employee: '' e))"
proof (induction ds arbitrary: acc es)
  case Nil
  then show ?case by simp
next
  case (Cons a ds)
  then obtain x xs where "es = x # xs" by (cases es) auto
  with Cons.prems have "bson_Unmarshal a = Inr x" "map bson_Unmarshal ds = map Inr xs" by auto
  with Cons.IH [of xs "append_slice acc x"] Cons.prems(2) show ?case by simp
qed

lemma getAllEmployees_error_iff:
  "(snd (getAllEmployees env c) \<noteq> None) =
   (fault env \<noteq> None \<or> cursor_fault env \<noteq> None \<or> (\<exists>d\<in>set c. \<forall>x. bson_Unmarshal d \<noteq> Inr x))"
proof (cases "fault env")
  case (Some msg)
  then show ?thesis by (simp add: getAllEmployees_def Find_def)
next
  case None
  show ?thesis
  proof (cases "cursor_fault env")
    case (Some a)
    obtain n msg where a: "a = (n, msg)" by (cases a)
    with Some None collect_ok_iff [of "take n c" "Some (CommandError msg)" nil]
    show ?thesis
      by (simp add: getAllEmployees_def Find_def)
  next
    case cf: None
    with None collect_ok_iff [of c None nil] show ?thesis
      by (auto simp add: getAllEmployees_def Find_def)
  qed
qed

lemma getAllEmployees_error_nil:
  "snd (getAllEmployees env c) = Some e \<Longrightarrow> getAllEmployees env c = (nil, Some e)"
proof (cases "Find env c")
  case (Inl a)
  assume "snd (getAllEmployees env c) = Some e"
  with Inl show ?thesis by (simp add: getAllEmployees_def)
next
  case (Inr cur)
  assume e: "snd (getAllEmployees env c) = Some e"
  with Inr have "snd (collect (batch cur) (Err cur) nil) \<noteq> None"
    by (simp add: getAllEmployees_def)
  from collect_error_nil [OF this] Inr e show ?thesis
    by (simp add: getAllEmployees_def prod_eq_iff)
qed

subsection \<open>Updating\<close>

lemma elements_bson_Marshal:
  "valid_payload isEmail e \<Longrightarrow>
   elements (bson_Marshal e) =
     [''name'' \<mapsto> BsonString (Name e), ''email'' \<mapsto> BsonString (Email e),
      ''phone'' \<mapsto> BsonString (Phone e), ''department'' \<mapsto> BsonString (Department e)]"
  by (simp add: bson_Marshal_def omitempty_def valid_payload_def)

lemma bson_Unmarshal_set:
  assumes "valid_payload isEmail e" "oid d = Some i"
  shows "bson_Unmarshal (d\<lparr>elements := elements d ++ elements (bson_Marshal e)\<rparr>) = Inr (e\<lparr>ID := i\<rparr>)"
  using assms
  by (simp add: elements_bson_Marshal bson_Unmarshal_def decode_string_def)

lemma UpdateEmployee_200:
  assumes "status (fst (UpdateEmployee isEmail env c r)) = 200" "Body r = Inr e"
  shows "valid_payload isEmail e"
proof (rule ccontr)
  assume "\<not> valid_payload isEmail e"
  from UpdateEmployee_invalid [OF this assms(2), of env c] assms(1) show False by simp
qed

lemma update_first_oids:
  "update_first i u c = Inr (n, c') \<Longrightarrow> map oid c' = map oid c"
proof (induction c arbitrary: n c')
  case Nil
  then show ?case by simp
next
  case (Cons d ds)
  show ?case
  proof (cases "oid d = Some i")
    case True
    with Cons.prems show ?thesis
      by (auto simp add: set_elements_def split: sum.splits if_splits)
  next
    case False
    with Cons.prems obtain ds' where "update_first i u ds = Inr (n, ds')" "c' = d # ds'"
      by (auto split: sum.splits)
    with Cons.IH show ?thesis by simp
  qed
qed

subsection \<open>The store's invariant\<close>

text \<open>
  Every handler keeps the collection well-formed: an insert is refused when the
  \<^verbatim>\<open>_id\<close> is taken, an update does not touch an \<^verbatim>\<open>_id\<close>, a delete only removes.
\<close>

lemma delete_first_wf:
  "wf_collection c \<Longrightarrow> wf_collection (snd (delete_first i c))"
  by (simp add: wf_collection_def delete_first_distinct distinct_map_filter) auto

lemma wf_InsertOne: "wf_collection c \<Longrightarrow> wf_collection (snd (InsertOne env c d))"
  by (auto simp add: InsertOne_def wf_collection_def Let_def split: option.splits)

lemma wf_UpdateOne:
  assumes "wf_collection c"
  shows "wf_collection (snd (UpdateOne env c i u))"
proof (cases "fault env")
  case (Some msg)
  with assms show ?thesis by (simp add: UpdateOne_def)
next
  case None
  show ?thesis
  proof (cases "update_first i u c")
    case (Inl e)
    with None assms show ?thesis by (simp add: UpdateOne_def)
  next
    case (Inr p)
    obtain n c' where p: "p = (n, c')" by (cases p)
    with Inr have "map oid c' = map oid c" by (simp add: update_first_oids)
    with assms have "wf_collection c'" by (simp add: wf_collection_def)
    with None Inr p show ?thesis by (simp add: UpdateOne_def)
  qed
qed

lemma wf_DeleteOne: "wf_collection c \<Longrightarrow> wf_collection (snd (DeleteOne env c i))"
  using delete_first_wf [of c i]
  by (cases "fault env") (auto simp add: DeleteOne_def split: prod.splits)

lemma snd_insertOneEmployee:
  "snd (insertOneEmployee env c e) = snd (InsertOne env c (bson_Marshal e))"
  by (simp add: insertOneEmployee_def split: prod.splits sum.splits)

lemma snd_updateOneEmployee:
  "snd (updateOneEmployee env c s e) =
     (case ObjectIDFromHex s of Inl err \<Rightarrow> c | Inr i \<Rightarrow> snd (UpdateOne env c i (bson_Marshal e)))"
  by (simp add: updateOneEmployee_def split: prod.splits sum.splits)

lemma snd_deleteOneEmployee:
  "snd (deleteOneEmployee env c s) =
     (case ObjectIDFromHex s of Inl err \<Rightarrow> c | Inr i \<Rightarrow> snd (DeleteOne env c i))"
  by (simp add: deleteOneEmployee_def split: prod.splits sum.splits)

lemma snd_CreateEmployee:
  "snd (CreateEmployee isEmail env c r) =
     (case Body r of
        Inl err \<Rightarrow> c
      | Inr e \<Rightarrow> if valid_payload isEmail e then snd (insertOneEmployee env c e) else c)"
  by (simp add: CreateEmployee_def validate_Struct_errors split: prod.splits sum.splits option.splits)

lemma snd_UpdateEmployee:
  "snd (UpdateEmployee isEmail env c r) =
     (case Body r of
        Inl err \<Rightarrow> c
      | Inr e \<Rightarrow>
          if valid_payload isEmail e then snd (updateOneEmployee env c (params r ''id'') e)
          else c)"
  by (simp add: UpdateEmployee_def validate_Struct_errors split: prod.splits sum.splits option.splits)

lemma snd_DeleteEmployee:
  "snd (DeleteEmployee env c r) = snd (deleteOneEmployee env c (params r ''id''))"
  by (simp add: DeleteEmployee_def split: prod.splits option.splits)

lemma wf_CreateEmployee:
  "wf_collection c \<Longrightarrow> wf_collection (snd (CreateEmployee isEmail env c r))"
  by (simp add: snd_CreateEmployee snd_insertOneEmployee wf_InsertOne split: sum.splits)

lemma wf_UpdateEmployee:
  "wf_collection c \<Longrightarrow> wf_collection (snd (UpdateEmployee isEmail env c r))"
  by (simp add: snd_UpdateEmployee snd_updateOneEmployee wf_UpdateOne split: sum.splits)

lemma wf_DeleteEmployee:
  "wf_collection c \<Longrightarrow> wf_collection (snd (DeleteEmployee env c r))"
  by (simp add: snd_DeleteEmployee snd_deleteOneEmployee wf_DeleteOne split: sum.splits)

subsection \<open>More on the example inputs\<close>

lemma working_simps:
  "fault working = None" "cursor_fault working = None"
  "NewObjectID working = [0x65, 0x4f, 0x1a, 0x2b, 0x3c, 0x4d, 0x5e, 0x6f, 0x70, 0x81, 0x92, 0xa3]"
  by (simp_all add: working_def)

lemma decode_staff: "map bson_Unmarshal staff = map Inr [bob, carol]"
  by (simp add: staff_def bson_Unmarshal_def bson_Marshal_def decode_string_def omitempty_def
      bob_def carol_def NilObjectID_def)

lemma staff_nth: "staff ! 0 = bson_Marshal bob" "staff ! 1 = bson_Marshal carol" "length staff = 2"
  by (simp_all add: staff_def)

lemma wf_staff: "wf_collection staff"
  by (simp add: wf_collection_def oid_staff)

lemma oid_bob: "oid (bson_Marshal bob) = Some (ID bob)"
  by (simp add: oid_bson_Marshal bob_def NilObjectID_def)

lemma oid_ann: "oid (bson_Marshal ann) = None"
  by (simp add: oid_bson_Marshal ann_def)

section \<open>The claims\<close>

text \<open>
  C1. For every payload that decoded, validation, as Create and Update both run it,
  succeeds exactly when name, phone and department are non-empty and email is non-empty
  and a valid address. When it fails, each of the two handlers answers 400 and changes
  nothing in the store; its error string is one message for each field that breaks its
  rule, in the struct's order, joined by a comma and a space:
  \<^verbatim>\<open>Field 'Name' is required\<close> for an empty field,
  \<^verbatim>\<open>Field 'Email' must be a valid email address\<close> for a malformed address. A valid
  payload is never answered 400.
\<close>

theorem validation_rules_and_messages:
  "(validate_Struct isEmail e = None) = valid_payload isEmail e \<and>
   (violated isEmail e = []) = valid_payload isEmail e \<and>
   (valid_payload isEmail e \<longrightarrow>
      status (fst (CreateEmployee isEmail env c \<lparr>Vars = vs, Body = Inr e\<rparr>)) \<noteq> 400 \<and>
      status (fst (UpdateEmployee isEmail env c \<lparr>Vars = vs, Body = Inr e\<rparr>)) \<noteq> 400) \<and>
   (\<not> valid_payload isEmail e \<longrightarrow>
      CreateEmployee isEmail env c \<lparr>Vars = vs, Body = Inr e\<rparr> =
        (\<lparr>status = 400,
          body = json_map ''error''
            (Text (strings_Join (map (violation_message e) (violated isEmail e)) '', ''))\<rparr>, c) \<and>
      UpdateEmployee isEmail env c \<lparr>Vars = vs, Body = Inr e\<rparr> =
        (\<lparr>status = 400,
          body = json_map ''error''
            (Text (strings_Join (map (violation_message e) (violated isEmail e)) '', ''))\<rparr>, c))"
proof -
  let ?r = "\<lparr>Vars = vs, Body = Inr e\<rparr>"
  have b: "Body ?r = Inr e" by simp
  have 1: "(validate_Struct isEmail e = None) = valid_payload isEmail e"
    by (simp add: validate_Struct_errors)
  have 2: "(violated isEmail e = []) = valid_payload isEmail e"
    by (auto simp add: violated_def valid_payload_def)
  have 3: "valid_payload isEmail e \<Longrightarrow> status (fst (CreateEmployee isEmail env c ?r)) \<noteq> 400"
    using CreateEmployee_valid_status [OF _ b, of isEmail env c] by auto
  have 4: "valid_payload isEmail e \<Longrightarrow> status (fst (UpdateEmployee isEmail env c ?r)) \<noteq> 400"
    using UpdateEmployee_valid_status [OF _ b, of isEmail env c] by auto
  show ?thesis
    using 1 2 3 4 CreateEmployee_invalid [OF _ b] UpdateEmployee_invalid [OF _ b] by blast
qed

text \<open>
  A payload without a name and with the address \<^verbatim>\<open>not-an-email\<close> gets both messages;
  the payload of the scenario passes.
\<close>

theorem validation_rules_and_messages_witness:
  "\<not> valid_payload has_at
       \<lparr>ID = NilObjectID, Name = [], Email = ''not-an-email'', Phone = ''123'',
        Department = ''Eng''\<rparr> \<and>
   CreateEmployee has_at working []
      \<lparr>Vars = Map.empty,
       Body = Inr \<lparr>ID = NilObjectID, Name = [], Email = ''not-an-email'', Phone = ''123'',
                   Department = ''Eng''\<rparr>\<rparr> =
     (\<lparr>status = 400,
       body = JObject [(''error'', JString (Text
         ''Field 'Name' is required, Field 'Email' must be a valid email address''))]\<rparr>, []) \<and>
   valid_payload has_at ann \<and>
   status (fst (CreateEmployee has_at working [] \<lparr>Vars = Map.empty, Body = Inr ann\<rparr>)) \<noteq> 400"
  using validation_rules_and_messages [of has_at
      "\<lparr>ID = NilObjectID, Name = [], Email = ''not-an-email'', Phone = ''123'',
        Department = ''Eng''\<rparr>" working "[]" Map.empty]
    validation_rules_and_messages [of has_at ann working "[]" Map.empty]
  by (simp add: valid_payload_def violated_def violation_message_def has_at_def apostrophe_def
      json_map_def ann_def)

text \<open>
  C2, as stated, fails: Update with the identifier \<^verbatim>\<open>xyz\<close> and the valid payload of
  the scenario is answered 500, not 400. The handler validates the payload before it looks
  at the identifier, and reports every error of \<^verbatim>\<open>updateOneEmployee\<close> as 500.
\<close>

theorem UpdateEmployee_xyz_counterexample:
  "ObjectIDFromHex ''xyz'' = Inl ErrInvalidHex \<and>
   valid_payload has_at ann \<and>
   UpdateEmployee has_at working [] \<lparr>Vars = [''id'' \<mapsto> ''xyz''], Body = Inr ann\<rparr> =
     (\<lparr>status = 500,
       body = JObject [(''error'', JString (Sprintf_v ''Failed to update employee: ''
                 (Errorf_w ''invalid employee ID format: '' ErrInvalidHex)))]\<rparr>, []) \<and>
   status (fst (UpdateEmployee has_at working []
                  \<lparr>Vars = [''id'' \<mapsto> ''xyz''], Body = Inr ann\<rparr>)) \<noteq> 400"
  by (simp add: ObjectIDFromHex_xyz valid_ann UpdateEmployee_def params_def validate_Struct_valid
      updateOneEmployee_def StatusInternalServerError_def json_map_def)

text \<open>
  C2, amended. For every request to Update whose path identifier does not parse (by
  \<open>ObjectIDFromHex_well_formed\<close>: is not 24 hexadecimal characters), the store is left as
  it is, and the answer is 400 when the body does not decode or the payload fails
  validation, and 500, with the error
  \<^verbatim>\<open>Failed to update employee: invalid employee ID format: ...\<close>, when the payload
  is valid.
\<close>

theorem UpdateEmployee_invalid_id:
  assumes "ObjectIDFromHex (params r ''id'') = Inl e"
  shows "snd (UpdateEmployee isEmail env c r) = c \<and>
    (case Body r of
       Inl de \<Rightarrow> status (fst (UpdateEmployee isEmail env c r)) = 400
     | Inr employee \<Rightarrow>
         if valid_payload isEmail employee
         then fst (UpdateEmployee isEmail env c r) =
                \<lparr>status = 500,
                 body = json_map ''error'' (Sprintf_v ''Failed to update employee: ''
                          (Errorf_w ''invalid employee ID format: '' e))\<rparr>
         else status (fst (UpdateEmployee isEmail env c r)) = 400)"
proof (cases "Body r")
  case (Inl de)
  then show ?thesis by (simp add: UpdateEmployee_def StatusBadRequest_def)
next
  case (Inr employee)
  show ?thesis
  proof (cases "valid_payload isEmail employee")
    case True
    with Inr assms show ?thesis
      by (simp add: UpdateEmployee_def validate_Struct_valid updateOneEmployee_def
          StatusInternalServerError_def)
  next
    case False
    with Inr UpdateEmployee_invalid [OF False Inr, of env c] show ?thesis by simp
  qed
qed

theorem UpdateEmployee_invalid_id_witness:
  "ObjectIDFromHex (params \<lparr>Vars = [''id'' \<mapsto> ''xyz''], Body = Inr ann\<rparr> ''id'') = Inl ErrInvalidHex \<and>
   snd (UpdateEmployee has_at working [] \<lparr>Vars = [''id'' \<mapsto> ''xyz''], Body = Inr ann\<rparr>) = [] \<and>
   fst (UpdateEmployee has_at working [] \<lparr>Vars = [''id'' \<mapsto> ''xyz''], Body = Inr ann\<rparr>) =
     \<lparr>status = 500,
      body = json_map ''error'' (Sprintf_v ''Failed to update employee: ''
               (Errorf_w ''invalid employee ID format: '' ErrInvalidHex))\<rparr>"
proof -
  have h: "ObjectIDFromHex (params \<lparr>Vars = [''id'' \<mapsto> ''xyz''], Body = Inr ann\<rparr> ''id'') = Inl ErrInvalidHex"
    by (simp add: params_def ObjectIDFromHex_xyz)
  show ?thesis
    using h UpdateEmployee_invalid_id [OF h, of has_at working "[]"] valid_ann by simp
qed

text \<open>
  C3. For every well-formed identifier that no document of the store carries and every
  valid payload, Update on a store that answers matches nothing, changes nothing and
  returns 200 with the message \<^verbatim>\<open>Employee updated successfully\<close>: no "not found"
  is reported.
\<close>

theorem UpdateEmployee_no_match:
  assumes "ObjectIDFromHex (params r ''id'') = Inr i" "Some i \<notin> set (map oid c)"
    "Body r = Inr e" "valid_payload isEmail e" "fault env = None"
  shows "UpdateOne env c i (bson_Marshal e) = (Inr 0, c) \<and>
    UpdateEmployee isEmail env c r =
      (\<lparr>status = 200, body = json_map ''message'' (Text ''Employee updated successfully'')\<rparr>, c)"
proof -
  have u: "UpdateOne env c i (bson_Marshal e) = (Inr 0, c)"
    using assms(2,5) by (simp add: UpdateOne_def update_first_miss)
  with UpdateEmployee_valid [OF assms(3,4,1), of env c] show ?thesis by simp
qed

theorem UpdateEmployee_no_match_witness:
  "ObjectIDFromHex
     (params \<lparr>Vars = [''id'' \<mapsto> ''507f1f77bcf86cd799439012''], Body = Inr ann\<rparr> ''id'') =
     Inr [0x50, 0x7f, 0x1f, 0x77, 0xbc, 0xf8, 0x6c, 0xd7, 0x99, 0x43, 0x90, 0x12] \<and>
   Some [0x50, 0x7f, 0x1f, 0x77, 0xbc, 0xf8, 0x6c, 0xd7, 0x99, 0x43, 0x90, 0x12]
     \<notin> set (map oid staff) \<and>
   valid_payload has_at ann \<and> fault working = None \<and>
   UpdateEmployee has_at working staff
      \<lparr>Vars = [''id'' \<mapsto> ''507f1f77bcf86cd799439012''], Body = Inr ann\<rparr> =
     (\<lparr>status = 200,
       body = JObject [(''message'', JString (Text ''Employee updated successfully''))]\<rparr>,
      staff)"
proof -
  let ?r = "\<lparr>Vars = [''id'' \<mapsto> ''507f1f77bcf86cd799439012''], Body = Inr ann\<rparr>"
  let ?i = "[0x50, 0x7f, 0x1f, 0x77, 0xbc, 0xf8, 0x6c, 0xd7, 0x99, 0x43, 0x90, 0x12] :: ObjectID"
  have 1: "ObjectIDFromHex (params ?r ''id'') = Inr ?i"
    by (simp add: params_def ObjectIDFromHex_other)
  have 2: "Some ?i \<notin> set (map oid staff)" by (simp add: oid_staff)
  have 3: "Body ?r = Inr ann" by simp
  have 5: "fault working = None" by (simp add: working_def)
  from UpdateEmployee_no_match [OF 1 2 3 valid_ann 5] 1 2 valid_ann 5
  show ?thesis by (simp add: json_map_def)
qed

text \<open>
  C4. Delete on a malformed identifier fails with the error
  \<^verbatim>\<open>invalid employee ID format\<close> and leaves the store as it is. On a well-formed
  identifier and a store that answers, it fails with \<^verbatim>\<open>no employee found with ID\<close> when
  no document carries the identifier (\<^verbatim>\<open>DeletedCount\<close> is 0), and otherwise succeeds,
  one document fewer in the store. The handler reports every failure of
  \<^verbatim>\<open>deleteOneEmployee\<close>, "not found" with the others, as 500, and success as 200.
\<close>

theorem DeleteEmployee_outcomes:
  "(\<forall>e. ObjectIDFromHex (params r ''id'') = Inl e \<longrightarrow>
      deleteOneEmployee env c (params r ''id'') =
        (Some (Errorf_w ''invalid employee ID format: '' e), c)) \<and>
   (\<forall>i. ObjectIDFromHex (params r ''id'') = Inr i \<and> fault env = None \<and>
        Some i \<notin> set (map oid c) \<longrightarrow>
      DeleteOne env c i = (Inr 0, c) \<and>
      deleteOneEmployee env c (params r ''id'') =
        (Some (Errorf (''no employee found with ID: '' @ params r ''id'')), c)) \<and>
   (\<forall>i. ObjectIDFromHex (params r ''id'') = Inr i \<and> fault env = None \<and>
        Some i \<in> set (map oid c) \<longrightarrow>
      DeleteOne env c i = (Inr 1, snd (delete_first i c)) \<and>
      Suc (length (snd (delete_first i c))) = length c \<and>
      deleteOneEmployee env c (params r ''id'') = (None, snd (delete_first i c))) \<and>
   (\<forall>e c'. deleteOneEmployee env c (params r ''id'') = (Some e, c') \<longrightarrow>
      DeleteEmployee env c r =
        (\<lparr>status = 500,
          body = json_map ''error'' (Sprintf_v ''Failed to delete employee: '' e)\<rparr>, c')) \<and>
   (\<forall>c'. deleteOneEmployee env c (params r ''id'') = (None, c') \<longrightarrow>
      DeleteEmployee env c r =
        (\<lparr>status = 200,
          body = json_map ''message'' (Text ''Employee deleted successfully'')\<rparr>, c'))"
  by (simp add: deleteOneEmployee_malformed deleteOneEmployee_missing deleteOneEmployee_present
      DeleteOne_working delete_first_miss delete_first_length DeleteEmployee_cases)

theorem DeleteEmployee_outcomes_witness:
  "ObjectIDFromHex ''xyz'' = Inl ErrInvalidHex \<and>
   DeleteEmployee working staff \<lparr>Vars = [''id'' \<mapsto> ''xyz''], Body = Inl (SyntaxError ''EOF'')\<rparr> =
     (\<lparr>status = 500,
       body = json_map ''error'' (Sprintf_v ''Failed to delete employee: ''
                (Errorf_w ''invalid employee ID format: '' ErrInvalidHex))\<rparr>, staff) \<and>
   ObjectIDFromHex ''507f1f77bcf86cd799439012'' =
     Inr [0x50, 0x7f, 0x1f, 0x77, 0xbc, 0xf8, 0x6c, 0xd7, 0x99, 0x43, 0x90, 0x12] \<and>
   DeleteEmployee working staff
       \<lparr>Vars = [''id'' \<mapsto> ''507f1f77bcf86cd799439012''], Body = Inl (SyntaxError ''EOF'')\<rparr> =
     (\<lparr>status = 500,
       body = json_map ''error'' (Sprintf_v ''Failed to delete employee: ''
                (Errorf ''no employee found with ID: 507f1f77bcf86cd799439012''))\<rparr>, staff) \<and>
   ObjectIDFromHex ''507f1f77bcf86cd799439011'' =
     Inr [0x50, 0x7f, 0x1f, 0x77, 0xbc, 0xf8, 0x6c, 0xd7, 0x99, 0x43, 0x90, 0x11] \<and>
   DeleteEmployee working staff
       \<lparr>Vars = [''id'' \<mapsto> ''507f1f77bcf86cd799439011''], Body = Inl (SyntaxError ''EOF'')\<rparr> =
     (\<lparr>status = 200,
       body = json_map ''message'' (Text ''Employee deleted successfully'')\<rparr>,
      [bson_Marshal carol])"
proof -
  let ?r1 = "\<lparr>Vars = [''id'' \<mapsto> ''xyz''], Body = Inl (SyntaxError ''EOF'')\<rparr>"
  let ?r2 = "\<lparr>Vars = [''id'' \<mapsto> ''507f1f77bcf86cd799439012''], Body = Inl (SyntaxError ''EOF'')\<rparr>"
  let ?r3 = "\<lparr>Vars = [''id'' \<mapsto> ''507f1f77bcf86cd799439011''], Body = Inl (SyntaxError ''EOF'')\<rparr>"
  let ?i2 = "[0x50, 0x7f, 0x1f, 0x77, 0xbc, 0xf8, 0x6c, 0xd7, 0x99, 0x43, 0x90, 0x12] :: ObjectID"
  let ?i3 = "[0x50, 0x7f, 0x1f, 0x77, 0xbc, 0xf8, 0x6c, 0xd7, 0x99, 0x43, 0x90, 0x11] :: ObjectID"
  have p1: "params ?r1 ''id'' = ''xyz''"
    and p2: "params ?r2 ''id'' = ''507f1f77bcf86cd799439012''"
    and p3: "params ?r3 ''id'' = ''507f1f77bcf86cd799439011''"
    by (simp_all add: params_def)
  have w: "fault working = None" by (simp add: working_def)
  have m2: "Some ?i2 \<notin> set (map oid staff)" and m3: "Some ?i3 \<in> set (map oid staff)"
    by (simp_all add: oid_staff)
  have d: "snd (delete_first ?i3 staff) = [bson_Marshal carol]"
    by (simp add: staff_def bson_Marshal_def bob_def NilObjectID_def)
  note T1 = DeleteEmployee_outcomes [of ?r1 working staff, unfolded p1]
  note T2 = DeleteEmployee_outcomes [of ?r2 working staff, unfolded p2]
  note T3 = DeleteEmployee_outcomes [of ?r3 working staff, unfolded p3]
  from T1 ObjectIDFromHex_xyz have "deleteOneEmployee working staff ''xyz'' =
      (Some (Errorf_w ''invalid employee ID format: '' ErrInvalidHex), staff)"
    by blast
  with T1 have 1: "DeleteEmployee working staff ?r1 =
     (\<lparr>status = 500,
       body = json_map ''error'' (Sprintf_v ''Failed to delete employee: ''
                (Errorf_w ''invalid employee ID format: '' ErrInvalidHex))\<rparr>, staff)"
    by blast
  from T2 ObjectIDFromHex_other w m2
  have "deleteOneEmployee working staff ''507f1f77bcf86cd799439012'' =
      (Some (Errorf (''no employee found with ID: '' @ ''507f1f77bcf86cd799439012'')), staff)"
    by blast
  with T2 have 2: "DeleteEmployee working staff ?r2 =
     (\<lparr>status = 500,
       body = json_map ''error'' (Sprintf_v ''Failed to delete employee: ''
                (Errorf (''no employee found with ID: '' @ ''507f1f77bcf86cd799439012'')))\<rparr>, staff)"
    by blast
  from T3 ObjectIDFromHex_example w m3
  have "deleteOneEmployee working staff ''507f1f77bcf86cd799439011'' =
      (None, snd (delete_first ?i3 staff))"
    by blast
  with T3 d have 3: "DeleteEmployee working staff ?r3 =
     (\<lparr>status = 200,
       body = json_map ''message'' (Text ''Employee deleted successfully'')\<rparr>,
      [bson_Marshal carol])"
    by simp
  from 1 2 3 show ?thesis
    by (simp add: ObjectIDFromHex_xyz ObjectIDFromHex_other ObjectIDFromHex_example)
qed

text \<open>
  C5. For every valid payload that brings no identifier, on a store that answers and with
  the driver generating a non-zero identifier that the collection does not hold yet,
  Create returns 200 with the message \<^verbatim>\<open>Employee created successfully\<close> and appends
  one document. Where the store's documents decoded to the records \<open>before\<close>, a List that
  follows returns these and then one more record, with the payload's four business fields
  and the generated identifier: it is the one record of the list that matches the payload
  and carries an identifier no record had before, and the list has one matching record
  more than before: exactly one where none matched before (the store permits duplicates
  of the business fields).
\<close>

theorem Create_then_List:
  assumes "Body r = Inr e" "valid_payload isEmail e" "ID e = NilObjectID"
    and "fault env = None" "NewObjectID env \<noteq> NilObjectID"
      "Some (NewObjectID env) \<notin> set (map oid c)"
    and "map bson_Unmarshal c = map Inr before"
    and "fault env' = None" "cursor_fault env' = None"
  shows "CreateEmployee isEmail env c r =
      (\<lparr>status = 200, body = json_map ''message'' (Text ''Employee created successfully'')\<rparr>,
       c @ [(bson_Marshal e)\<lparr>oid := Some (NewObjectID env)\<rparr>]) \<and>
    getAllEmployees env' (snd (CreateEmployee isEmail env c r)) =
      (Slice (before @ [e\<lparr>ID := NewObjectID env\<rparr>]), None) \<and>
    GetAllEmployees env' (snd (CreateEmployee isEmail env c r)) =
      \<lparr>status = 200, body = JArray (map json_Employee (before @ [e\<lparr>ID := NewObjectID env\<rparr>]))\<rparr> \<and>
    json_Employee (e\<lparr>ID := NewObjectID env\<rparr>) =
      JObject [(''id'', JString (Text (Hex (NewObjectID env)))),
               (''name'', JString (Text (Name e))), (''email'', JString (Text (Email e))),
               (''phone'', JString (Text (Phone e))),
               (''department'', JString (Text (Department e)))] \<and>
    NewObjectID env \<notin> ID ` set before \<and>
    filter (\<lambda>x. matches e x \<and> ID x \<notin> ID ` set before) (before @ [e\<lparr>ID := NewObjectID env\<rparr>]) =
      [e\<lparr>ID := NewObjectID env\<rparr>] \<and>
    length (filter (matches e) (before @ [e\<lparr>ID := NewObjectID env\<rparr>])) =
      Suc (length (filter (matches e) before))"
proof -
  let ?new = "e\<lparr>ID := NewObjectID env\<rparr>"
  let ?d = "(bson_Marshal e)\<lparr>oid := Some (NewObjectID env)\<rparr>"
  have ins: "InsertOne env c (bson_Marshal e) = (Inr (NewObjectID env), c @ [?d])"
    using assms(3,4,6) by (simp add: InsertOne_working oid_bson_Marshal Let_def)
  have create: "CreateEmployee isEmail env c r =
      (\<lparr>status = 200, body = json_map ''message'' (Text ''Employee created successfully'')\<rparr>,
       c @ [?d])"
    using CreateEmployee_valid [OF assms(1,2), of env c] ins by simp
  have dec: "map bson_Unmarshal (c @ [?d]) = map Inr (before @ [?new])"
    using assms(7) by (simp add: bson_Unmarshal_Marshal)
  have "getAllEmployees env' (c @ [?d]) = (foldl append_slice nil (before @ [?new]), None)"
    using getAllEmployees_working [OF assms(8,9)] collect_ok [OF dec] by simp
  moreover have "foldl append_slice nil (before @ [?new]) = Slice (before @ [?new])"
    using elems_foldl_append [of nil "before @ [?new]"]
    by (cases "foldl append_slice nil (before @ [?new])") auto
  ultimately have list: "getAllEmployees env' (c @ [?d]) = (Slice (before @ [?new]), None)"
    by simp
  have handler: "GetAllEmployees env' (c @ [?d]) =
      \<lparr>status = 200, body = JArray (map json_Employee (before @ [?new]))\<rparr>"
    using list by (simp add: GetAllEmployees_cases)
  have fresh: "NewObjectID env \<notin> ID ` set before"
    using fresh_ID [OF assms(7,5,6)] .
  have old: "filter (\<lambda>x. matches e x \<and> ID x \<notin> ID ` set before) before = []"
    by (simp add: filter_empty_conv)
  have m: "matches e ?new" by (simp add: matches_def)
  have one: "filter (\<lambda>x. matches e x \<and> ID x \<notin> ID ` set before) (before @ [?new]) = [?new]"
    using old m fresh by simp
  have count: "length (filter (matches e) (before @ [?new])) = Suc (length (filter (matches e) before))"
    using m by simp
  from create list handler json_Employee_valid [OF assms(2)] fresh one count
  show ?thesis by simp
qed

theorem Create_then_List_witness:
  "valid_payload has_at ann \<and> ID ann = NilObjectID \<and> fault working = None \<and>
   cursor_fault working = None \<and> NewObjectID working \<noteq> NilObjectID \<and>
   Some (NewObjectID working) \<notin> set (map oid staff) \<and>
   map bson_Unmarshal staff = map Inr [bob, carol] \<and>
   fst (CreateEmployee has_at working staff \<lparr>Vars = Map.empty, Body = Inr ann\<rparr>) =
     \<lparr>status = 200, body = JObject [(''message'', JString (Text ''Employee created successfully''))]\<rparr> \<and>
   getAllEmployees working
       (snd (CreateEmployee has_at working staff \<lparr>Vars = Map.empty, Body = Inr ann\<rparr>)) =
     (Slice [bob, carol, ann\<lparr>ID := NewObjectID working\<rparr>], None) \<and>
   filter (\<lambda>x. matches ann x \<and> ID x \<notin> ID ` set [bob, carol]) [bob, carol, ann\<lparr>ID := NewObjectID working\<rparr>] =
     [ann\<lparr>ID := NewObjectID working\<rparr>]"
proof -
  let ?r = "\<lparr>Vars = Map.empty, Body = Inr ann\<rparr>"
  have 1: "Body ?r = Inr ann" by simp
  have 3: "ID ann = NilObjectID" by (simp add: ann_def)
  have 5: "NewObjectID working \<noteq> NilObjectID" by (simp add: working_simps NilObjectID_def)
  have 6: "Some (NewObjectID working) \<notin> set (map oid staff)"
    by (simp add: working_simps oid_staff)
  note T = Create_then_List [OF 1 valid_ann 3 working_simps(1) 5 6 decode_staff
      working_simps(1) working_simps(2)]
  from T have a: "fst (CreateEmployee has_at working staff ?r) =
     \<lparr>status = 200, body = JObject [(''message'', JString (Text ''Employee created successfully''))]\<rparr>"
    by (elim conjE, simp add: json_map_def)
  from T have b: "getAllEmployees working (snd (CreateEmployee has_at working staff ?r)) =
     (Slice [bob, carol, ann\<lparr>ID := NewObjectID working\<rparr>], None)"
    by (elim conjE, simp)
  from T have c: "filter (\<lambda>x. matches ann x \<and> ID x \<notin> ID ` set [bob, carol]) [bob, carol, ann\<lparr>ID := NewObjectID working\<rparr>] =
     [ann\<lparr>ID := NewObjectID working\<rparr>]"
    by (elim conjE, simp)
  from valid_ann 3 working_simps(1,2) 5 6 decode_staff a b c show ?thesis by blast
qed

text \<open>
  C6. For every Update answered 200, on a well-formed identifier that the document at
  position \<open>k\<close> carries, in a collection whose documents have distinct identifiers: the
  four business fields of that document are the payload's afterwards (it decodes to the
  payload under the old identifier), its \<^verbatim>\<open>_id\<close> is the same, and every other
  document of the store is unchanged.
\<close>

theorem UpdateEmployee_frame:
  assumes "status (fst (UpdateEmployee isEmail env c r)) = 200"
    and "Body r = Inr e" "ObjectIDFromHex (params r ''id'') = Inr i"
    and "wf_collection c" "k < length c" "oid (c ! k) = Some i"
  shows "snd (UpdateEmployee isEmail env c r) =
      c[k := (c ! k)\<lparr>elements := elements (c ! k) ++ elements (bson_Marshal e)\<rparr>] \<and>
    length (snd (UpdateEmployee isEmail env c r)) = length c \<and>
    oid (snd (UpdateEmployee isEmail env c r) ! k) = Some i \<and>
    elements (snd (UpdateEmployee isEmail env c r) ! k) ''name'' = Some (BsonString (Name e)) \<and>
    elements (snd (UpdateEmployee isEmail env c r) ! k) ''email'' = Some (BsonString (Email e)) \<and>
    elements (snd (UpdateEmployee isEmail env c r) ! k) ''phone'' = Some (BsonString (Phone e)) \<and>
    elements (snd (UpdateEmployee isEmail env c r) ! k) ''department'' =
      Some (BsonString (Department e)) \<and>
    bson_Unmarshal (snd (UpdateEmployee isEmail env c r) ! k) = Inr (e\<lparr>ID := i\<rparr>) \<and>
    (\<forall>j<length c. j \<noteq> k \<longrightarrow> snd (UpdateEmployee isEmail env c r) ! j = c ! j) \<and>
    wf_collection (snd (UpdateEmployee isEmail env c r))"
proof -
  let ?u = "bson_Marshal e"
  let ?d = "(c ! k)\<lparr>elements := elements (c ! k) ++ elements ?u\<rparr>"
  have valid: "valid_payload isEmail e"
    using UpdateEmployee_200 [OF assms(1,2)] .
  note U = UpdateEmployee_valid [OF assms(2) valid assms(3), of env c]
  have first: "\<forall>j<k. oid (c ! j) \<noteq> Some i"
    using distinct_first_match [OF _ assms(5,6)] assms(4) by (simp add: wf_collection_def)
  note hit = update_first_hit [OF assms(5,6) first, of ?u]
  have nofault: "fault env = None"
  proof (cases "fault env")
    case (Some msg)
    with U assms(1) show ?thesis by (simp add: UpdateOne_def)
  qed simp
  have same: "oid ?u = None \<or> oid ?u = oid (c ! k)"
  proof (rule ccontr)
    assume "\<not> (oid ?u = None \<or> oid ?u = oid (c ! k))"
    then have "set_elements ?u (c ! k) = Inl ImmutableFieldError"
      by (simp add: set_elements_def)
    with hit nofault have "UpdateOne env c i ?u = (Inl ImmutableFieldError, c)"
      by (simp add: UpdateOne_def)
    with U assms(1) show False by simp
  qed
  then have "set_elements ?u (c ! k) = Inr ?d"
    by (auto simp add: set_elements_def)
  with hit nofault have "UpdateOne env c i ?u = (Inr 1, c[k := ?d])"
    by (simp add: UpdateOne_def)
  with U have c': "snd (UpdateEmployee isEmail env c r) = c[k := ?d]"
    by simp
  have el: "elements ?d ''name'' = Some (BsonString (Name e))"
    "elements ?d ''email'' = Some (BsonString (Email e))"
    "elements ?d ''phone'' = Some (BsonString (Phone e))"
    "elements ?d ''department'' = Some (BsonString (Department e))"
    by (simp_all add: elements_bson_Marshal [OF valid])
  have "map oid (c[k := ?d]) = map oid c"
    using assms(5) by (simp add: map_update list_update_same_conv)
  with assms(4) have wf: "wf_collection (c[k := ?d])"
    by (simp add: wf_collection_def)
  from c' el assms(5,6) bson_Unmarshal_set [OF valid assms(6)] wf
  show ?thesis by simp
qed

theorem UpdateEmployee_frame_witness:
  "ObjectIDFromHex
     (params \<lparr>Vars = [''id'' \<mapsto> ''507f1f77bcf86cd799439011''], Body = Inr ann\<rparr> ''id'') =
     Inr (ID bob) \<and>
   wf_collection staff \<and> oid (staff ! 0) = Some (ID bob) \<and>
   fst (UpdateEmployee has_at working staff
         \<lparr>Vars = [''id'' \<mapsto> ''507f1f77bcf86cd799439011''], Body = Inr ann\<rparr>) =
     \<lparr>status = 200,
      body = JObject [(''message'', JString (Text ''Employee updated successfully''))]\<rparr> \<and>
   map bson_Unmarshal
     (snd (UpdateEmployee has_at working staff
            \<lparr>Vars = [''id'' \<mapsto> ''507f1f77bcf86cd799439011''], Body = Inr ann\<rparr>)) =
     [Inr (ann\<lparr>ID := ID bob\<rparr>), Inr carol] \<and>
   snd (UpdateEmployee has_at working staff
         \<lparr>Vars = [''id'' \<mapsto> ''507f1f77bcf86cd799439011''], Body = Inr ann\<rparr>) ! 1 = staff ! 1"
proof -
  let ?r = "\<lparr>Vars = [''id'' \<mapsto> ''507f1f77bcf86cd799439011''], Body = Inr ann\<rparr>"
  have b: "Body ?r = Inr ann" by simp
  have i: "ObjectIDFromHex (params ?r ''id'') = Inr (ID bob)"
    by (simp add: params_def ObjectIDFromHex_example bob_def)
  have k: "(0::nat) < length staff" by (simp add: staff_def)
  have o: "oid (staff ! 0) = Some (ID bob)" by (simp add: staff_nth oid_bob)
  have u: "UpdateOne working staff (ID bob) (bson_Marshal ann) =
      (Inr 1, [(bson_Marshal bob)\<lparr>elements := elements (bson_Marshal bob) ++ elements (bson_Marshal ann)\<rparr>,
               bson_Marshal carol])"
    by (simp add: UpdateOne_def working_simps staff_def oid_bob set_elements_def oid_ann)
  have f: "fst (UpdateEmployee has_at working staff ?r) =
     \<lparr>status = 200,
      body = JObject [(''message'', JString (Text ''Employee updated successfully''))]\<rparr>"
    using UpdateEmployee_valid [OF b valid_ann i, of working staff] u
    by (simp add: json_map_def)
  then have s: "status (fst (UpdateEmployee has_at working staff ?r)) = 200" by simp
  note T = UpdateEmployee_frame [OF s b i wf_staff k o]
  from T have 1: "bson_Unmarshal (snd (UpdateEmployee has_at working staff ?r) ! 0) =
      Inr (ann\<lparr>ID := ID bob\<rparr>)"
    by blast
  from T have 2: "snd (UpdateEmployee has_at working staff ?r) ! 1 = staff ! 1"
    by (simp add: staff_nth)
  from T have 3: "length (snd (UpdateEmployee has_at working staff ?r)) = 2"
    by (simp add: staff_nth)
  have "map bson_Unmarshal (snd (UpdateEmployee has_at working staff ?r)) =
      [Inr (ann\<lparr>ID := ID bob\<rparr>), Inr carol]"
  proof (rule nth_equalityI)
    show "length (map bson_Unmarshal (snd (UpdateEmployee has_at working staff ?r))) =
        length [Inr (ann\<lparr>ID := ID bob\<rparr>), Inr carol]"
      using 3 by simp
  next
    fix j assume "j < length (map bson_Unmarshal (snd (UpdateEmployee has_at working staff ?r)))"
    with 3 have "j = 0 \<or> j = 1" by auto
    then show "map bson_Unmarshal (snd (UpdateEmployee has_at working staff ?r)) ! j =
        [Inr (ann\<lparr>ID := ID bob\<rparr>), Inr carol] ! j"
      using 1 2 3 decode_staff by (auto simp add: staff_def)
  qed
  with i wf_staff o f 2 show ?thesis by blast
qed

text \<open>
  C7. For every collection whose documents have distinct identifiers and that holds a
  document under a well-formed identifier, Delete on that identifier, on a store that
  answers, returns 200 and removes that document and no other; no List that follows,
  whatever it meets, returns a record with the identifier.
\<close>

theorem DeleteEmployee_removes:
  assumes "wf_collection c" "ObjectIDFromHex (params r ''id'') = Inr i"
    and "Some i \<in> set (map oid c)" "fault env = None"
  shows "DeleteEmployee env c r =
      (\<lparr>status = 200, body = json_map ''message'' (Text ''Employee deleted successfully'')\<rparr>,
       filter (\<lambda>d. oid d \<noteq> Some i) c) \<and>
    Some i \<notin> set (map oid (snd (DeleteEmployee env c r))) \<and>
    Suc (length (snd (DeleteEmployee env c r))) = length c \<and>
    wf_collection (snd (DeleteEmployee env c r)) \<and>
    (\<forall>env'. \<forall>x\<in>set (elems (fst (getAllEmployees env' (snd (DeleteEmployee env c r))))).
        ID x \<noteq> i)"
proof -
  let ?c' = "filter (\<lambda>d. oid d \<noteq> Some i) c"
  from assms(1) have dist: "distinct (map oid c)" and ids: "None \<notin> set (map oid c)"
    by (simp_all add: wf_collection_def)
  have c': "snd (delete_first i c) = ?c'"
    using delete_first_distinct [OF dist] .
  have del: "DeleteEmployee env c r =
      (\<lparr>status = 200, body = json_map ''message'' (Text ''Employee deleted successfully'')\<rparr>, ?c')"
    using deleteOneEmployee_present [OF assms(2,4,3)] c' by (simp add: DeleteEmployee_cases)
  have gone: "Some i \<notin> set (map oid ?c')" by auto
  have len: "Suc (length ?c') = length c"
    using delete_first_length [OF assms(3)] c' by simp
  have wf: "wf_collection ?c'"
    using dist ids by (auto simp add: wf_collection_def distinct_map_filter)
  have list: "ID x \<noteq> i" if "x \<in> set (elems (fst (getAllEmployees env' ?c')))" for env' x
  proof -
    from getAllEmployees_members [OF that] obtain d where
      d: "d \<in> set ?c'" "bson_Unmarshal d = Inr x" by auto
    from d(1) ids have "oid d \<noteq> None" by force
    with d(1) obtain j where j: "oid d = Some j" "j \<noteq> i" by (cases "oid d") auto
    with bson_Unmarshal_ID [OF d(2)] show ?thesis by simp
  qed
  from del gone len wf list show ?thesis by simp
qed

theorem DeleteEmployee_removes_witness:
  "wf_collection staff \<and>
   ObjectIDFromHex
     (params \<lparr>Vars = [''id'' \<mapsto> ''507f1f77bcf86cd799439011''], Body = Inl (SyntaxError ''EOF'')\<rparr> ''id'') =
     Inr (ID bob) \<and>
   Some (ID bob) \<in> set (map oid staff) \<and> fault working = None \<and>
   getAllEmployees working staff = (Slice [bob, carol], None) \<and>
   DeleteEmployee working staff
       \<lparr>Vars = [''id'' \<mapsto> ''507f1f77bcf86cd799439011''], Body = Inl (SyntaxError ''EOF'')\<rparr> =
     (\<lparr>status = 200,
       body = JObject [(''message'', JString (Text ''Employee deleted successfully''))]\<rparr>,
      [bson_Marshal carol]) \<and>
   getAllEmployees working
     (snd (DeleteEmployee working staff
            \<lparr>Vars = [''id'' \<mapsto> ''507f1f77bcf86cd799439011''], Body = Inl (SyntaxError ''EOF'')\<rparr>)) =
     (Slice [carol], None) \<and>
   ID carol \<noteq> ID bob"
proof -
  let ?r = "\<lparr>Vars = [''id'' \<mapsto> ''507f1f77bcf86cd799439011''], Body = Inl (SyntaxError ''EOF'')\<rparr>"
  have i: "ObjectIDFromHex (params ?r ''id'') = Inr (ID bob)"
    by (simp add: params_def ObjectIDFromHex_example bob_def)
  have m: "Some (ID bob) \<in> set (map oid staff)"
    by (simp add: oid_staff bob_def)
  have f: "filter (\<lambda>d. oid d \<noteq> Some (ID bob)) staff = [bson_Marshal carol]"
    by (simp add: staff_def oid_bson_Marshal bob_def carol_def NilObjectID_def)
  note T = DeleteEmployee_removes [OF wf_staff i m working_simps(1)]
  from T f have 1: "DeleteEmployee working staff ?r =
     (\<lparr>status = 200,
       body = JObject [(''message'', JString (Text ''Employee deleted successfully''))]\<rparr>,
      [bson_Marshal carol])"
    by (simp add: json_map_def)
  have 0: "getAllEmployees working staff = (Slice [bob, carol], None)"
    using collect_ok [OF decode_staff, of nil]
    by (simp add: getAllEmployees_working working_simps)
  have "map bson_Unmarshal [bson_Marshal carol] = map Inr [carol]"
    using decode_staff by (simp add: staff_def)
  from collect_ok [OF this, of nil]
  have 2: "getAllEmployees working (snd (DeleteEmployee working staff ?r)) = (Slice [carol], None)"
    using 1 by (simp add: getAllEmployees_working working_simps)
  have 3: "ID carol \<noteq> ID bob" by (simp add: bob_def carol_def)
  from wf_staff i m working_simps(1) 0 1 2 3 show ?thesis by blast
qed

text \<open>
  C8. List fails exactly when \<^verbatim>\<open>Find\<close> fails, the cursor breaks or a document of the
  store does not decode. Whenever it fails, \<^verbatim>\<open>getAllEmployees\<close> returns the nil
  slice with the error, and the handler answers 500 with the error alone: in particular
  when the cursor breaks after documents that decoded, and when a document does not decode
  after others that did, the records read so far are dropped.
\<close>

theorem getAllEmployees_failure:
  "(snd (getAllEmployees env c) \<noteq> None) =
     (fault env \<noteq> None \<or> cursor_fault env \<noteq> None \<or>
      (\<exists>d\<in>set c. \<forall>x. bson_Unmarshal d \<noteq> Inr x)) \<and>
   (\<forall>e. snd (getAllEmployees env c) = Some e \<longrightarrow>
      getAllEmployees env c = (nil, Some e) \<and>
      GetAllEmployees env c =
        \<lparr>status = 500,
         body = json_map ''error'' (Sprintf_v ''Failed to retrieve employees: '' e)\<rparr>) \<and>
   (\<forall>n msg es. fault env = None \<and> cursor_fault env = Some (n, msg) \<and>
        map bson_Unmarshal (take n c) = map Inr es \<longrightarrow>
      getAllEmployees env c = (nil, Some (Errorf_w ''cursor error: '' (CommandError msg)))) \<and>
   (\<forall>ds d ds' es e. fault env = None \<and> cursor_fault env = None \<and> c = ds @ d # ds' \<and>
        map bson_Unmarshal ds = map Inr es \<and> bson_Unmarshal d = Inl e \<longrightarrow>
      getAllEmployees env c = (nil, Some (Errorf_w ''error decoding employee: '' e)))"
proof -
  have 2: "getAllEmployees env c = (nil, Some e) \<and>
      GetAllEmployees env c =
        \<lparr>status = 500,
         body = json_map ''error'' (Sprintf_v ''Failed to retrieve employees: '' e)\<rparr>"
    if "snd (getAllEmployees env c) = Some e" for e
    using getAllEmployees_error_nil [OF that] by (simp add: GetAllEmployees_cases)
  have 3: "getAllEmployees env c = (nil, Some (Errorf_w ''cursor error: '' (CommandError msg)))"
    if "fault env = None \<and> cursor_fault env = Some (n, msg) \<and>
        map bson_Unmarshal (take n c) = map Inr es" for n msg es
    using that collect_cursor_error [of "take n c" es "CommandError msg" nil]
    by (simp add: getAllEmployees_def Find_def)
  have 4: "getAllEmployees env c = (nil, Some (Errorf_w ''error decoding employee: '' e))"
    if "fault env = None \<and> cursor_fault env = None \<and> c = ds @ d # ds' \<and>
        map bson_Unmarshal ds = map Inr es \<and> bson_Unmarshal d = Inl e" for ds d ds' es e
    using that collect_decode_error [of ds es d e ds' None nil]
    by (simp add: getAllEmployees_def Find_def)
  from getAllEmployees_error_iff [of env c] 2 3 4 show ?thesis by blast
qed

theorem getAllEmployees_failure_witness:
  "fault broken = None \<and> cursor_fault broken = Some (1, ''connection reset by peer'') \<and>
   map bson_Unmarshal (take 1 staff) = map Inr [bob] \<and>
   getAllEmployees broken staff =
     (nil, Some (Errorf_w ''cursor error: '' (CommandError ''connection reset by peer''))) \<and>
   GetAllEmployees broken staff =
     \<lparr>status = 500,
      body = JObject [(''error'', JString (Sprintf_v ''Failed to retrieve employees: ''
               (Errorf_w ''cursor error: '' (CommandError ''connection reset by peer''))))]\<rparr> \<and>
   fault working = None \<and> cursor_fault working = None \<and>
   map bson_Unmarshal staff = map Inr [bob, carol] \<and>
   bson_Unmarshal odd_document = Inl (ValueDecoderError ''name'') \<and>
   getAllEmployees working (staff @ odd_document # []) =
     (nil, Some (Errorf_w ''error decoding employee: '' (ValueDecoderError ''name''))) \<and>
   GetAllEmployees working (staff @ odd_document # []) =
     \<lparr>status = 500,
      body = JObject [(''error'', JString (Sprintf_v ''Failed to retrieve employees: ''
               (Errorf_w ''error decoding employee: '' (ValueDecoderError ''name''))))]\<rparr>"
proof -
  have b: "fault broken = None" "cursor_fault broken = Some (1, ''connection reset by peer'')"
    by (simp_all add: broken_def)
  have t: "map bson_Unmarshal (take 1 staff) = map Inr [bob]"
    using decode_staff by (simp add: staff_def)
  have o: "bson_Unmarshal odd_document = Inl (ValueDecoderError ''name'')"
    by (simp add: bson_Unmarshal_def decode_string_def odd_document_def)
  note T1 = getAllEmployees_failure [of broken staff]
  note T2 = getAllEmployees_failure [of working "staff @ odd_document # []"]
  from T1 b t have 1: "getAllEmployees broken staff =
     (nil, Some (Errorf_w ''cursor error: '' (CommandError ''connection reset by peer'')))"
    by blast
  then have "snd (getAllEmployees broken staff) =
      Some (Errorf_w ''cursor error: '' (CommandError ''connection reset by peer''))"
    by simp
  with T1 have 2: "GetAllEmployees broken staff =
     \<lparr>status = 500,
      body = json_map ''error'' (Sprintf_v ''Failed to retrieve employees: ''
               (Errorf_w ''cursor error: '' (CommandError ''connection reset by peer'')))\<rparr>"
    by blast
  from T2 working_simps(1,2) decode_staff o
  have 3: "getAllEmployees working (staff @ odd_document # []) =
     (nil, Some (Errorf_w ''error decoding employee: '' (ValueDecoderError ''name'')))"
    by blast
  then have "snd (getAllEmployees working (staff @ odd_document # [])) =
      Some (Errorf_w ''error decoding employee: '' (ValueDecoderError ''name''))"
    by simp
  with T2 have 4: "GetAllEmployees working (staff @ odd_document # []) =
     \<lparr>status = 500,
      body = json_map ''error'' (Sprintf_v ''Failed to retrieve employees: ''
               (Errorf_w ''error decoding employee: '' (ValueDecoderError ''name'')))\<rparr>"
    by blast
  from b t o working_simps(1,2) decode_staff 1 2 3 4 show ?thesis
    by (simp add: json_map_def)
qed

text \<open>
  C9. On an empty collection, with no failure of \<^verbatim>\<open>Find\<close> or of the cursor, the
  slice returned is nil, and List answers 200 with the body \<^verbatim>\<open>null\<close>, not the empty
  array.
\<close>

theorem GetAllEmployees_empty:
  assumes "fault env = None" "cursor_fault env = None"
  shows "getAllEmployees env [] = (nil, None) \<and>
    GetAllEmployees env [] = \<lparr>status = 200, body = JNull\<rparr> \<and>
    body (GetAllEmployees env []) \<noteq> JArray []"
  using assms by (simp add: getAllEmployees_working GetAllEmployees_cases)

theorem GetAllEmployees_empty_witness:
  "fault working = None \<and> cursor_fault working = None \<and>
   GetAllEmployees working [] = \<lparr>status = 200, body = JNull\<rparr>"
  using GetAllEmployees_empty [OF working_simps(1,2)] working_simps(1,2) by simp

text \<open>
  C10. \<^verbatim>\<open>omitempty\<close> leaves the \<^verbatim>\<open>_id\<close> out of the marshalled document only
  when the identifier is zero. For a valid payload that brings a non-zero identifier, the
  document handed to \<^verbatim>\<open>InsertOne\<close> carries it; on a store that answers and does not
  hold that identifier yet, Create returns 200 and the document stored is the payload
  under its own identifier, whatever identifier the driver would have generated.
\<close>

theorem CreateEmployee_client_id:
  assumes "Body r = Inr e" "valid_payload isEmail e" "ID e \<noteq> NilObjectID"
    and "fault env = None" "Some (ID e) \<notin> set (map oid c)"
  shows "(\<forall>x. (oid (bson_Marshal x) = None) = (ID x = NilObjectID)) \<and>
    oid (bson_Marshal e) = Some (ID e) \<and>
    InsertOne env c (bson_Marshal e) = (Inr (ID e), c @ [bson_Marshal e]) \<and>
    CreateEmployee isEmail env c r =
      (\<lparr>status = 200, body = json_map ''message'' (Text ''Employee created successfully'')\<rparr>,
       c @ [bson_Marshal e]) \<and>
    oid (last (snd (CreateEmployee isEmail env c r))) = Some (ID e) \<and>
    bson_Unmarshal (last (snd (CreateEmployee isEmail env c r))) = Inr e"
proof -
  have o: "oid (bson_Marshal e) = Some (ID e)"
    using assms(3) by (simp add: oid_bson_Marshal)
  then have same: "(bson_Marshal e)\<lparr>oid := Some (ID e)\<rparr> = bson_Marshal e"
    by simp
  have ins: "InsertOne env c (bson_Marshal e) = (Inr (ID e), c @ [bson_Marshal e])"
    using assms(4,5) o same by (simp add: InsertOne_working Let_def)
  have create: "CreateEmployee isEmail env c r =
      (\<lparr>status = 200, body = json_map ''message'' (Text ''Employee created successfully'')\<rparr>,
       c @ [bson_Marshal e])"
    using CreateEmployee_valid [OF assms(1,2), of env c] ins by simp
  have dec: "bson_Unmarshal (bson_Marshal e) = Inr e"
    using bson_Unmarshal_Marshal [where e = e and i = "ID e"] same by simp
  from o ins create dec show ?thesis by (simp add: oid_bson_Marshal)
qed

theorem CreateEmployee_client_id_witness:
  "valid_payload has_at dave \<and> ID dave \<noteq> NilObjectID \<and> fault working = None \<and>
   Some (ID dave) \<notin> set (map oid staff) \<and> NewObjectID working \<noteq> ID dave \<and>
   CreateEmployee has_at working staff \<lparr>Vars = Map.empty, Body = Inr dave\<rparr> =
     (\<lparr>status = 200,
       body = JObject [(''message'', JString (Text ''Employee created successfully''))]\<rparr>,
      staff @ [bson_Marshal dave]) \<and>
   oid (bson_Marshal dave) = Some (ID dave)"
proof -
  let ?r = "\<lparr>Vars = Map.empty, Body = Inr dave\<rparr>"
  have 1: "Body ?r = Inr dave" by simp
  have 2: "valid_payload has_at dave" by (simp add: valid_payload_def has_at_def dave_def)
  have 3: "ID dave \<noteq> NilObjectID" by (simp add: dave_def NilObjectID_def)
  have 5: "Some (ID dave) \<notin> set (map oid staff)" by (simp add: oid_staff dave_def)
  have 6: "NewObjectID working \<noteq> ID dave" by (simp add: working_simps dave_def)
  note T = CreateEmployee_client_id [OF 1 2 3 working_simps(1) 5]
  from T have 7: "CreateEmployee has_at working staff ?r =
     (\<lparr>status = 200,
       body = JObject [(''message'', JString (Text ''Employee created successfully''))]\<rparr>,
      staff @ [bson_Marshal dave])"
    by (elim conjE, simp add: json_map_def)
  from T have 8: "oid (bson_Marshal dave) = Some (ID dave)" by blast
  from 2 3 working_simps(1) 5 6 7 8 show ?thesis by blast
qed

end
